theory Spec2Isabelle
  imports Complex_Main "HOL-Library.Word"
begin

section \<open>Common value types (core/common/Types.h)\<close>

text \<open>
  In the geometry kernel, the kinematics and the simulation the C++ type \<^verbatim>\<open>double\<close> is
  modelled by \<^typ>\<open>real\<close>: arithmetic is exact there, and neither rounding nor overflow
  is modelled. The toolpath side, whose validator tests \<^verbatim>\<open>std::isfinite\<close> and compares
  values that may be infinite or NaN, has a type of doubles with these special values of its
  own, introduced with it. The unsigned 64-bit counters are \<^typ>\<open>64 word\<close>, so that
  \<^verbatim>\<open>++\<close> wraps as in the source.
\<close>

datatype Axis = AxisX | AxisY | AxisZ | AxisA | AxisB | AxisC

datatype Vec3 = Vec3 (vec_x: real) (vec_y: real) (vec_z: real)

definition Vec3_add :: "Vec3 \<Rightarrow> Vec3 \<Rightarrow> Vec3" where
  "Vec3_add a b = Vec3 (vec_x a + vec_x b) (vec_y a + vec_y b) (vec_z a + vec_z b)"

definition Vec3_sub :: "Vec3 \<Rightarrow> Vec3 \<Rightarrow> Vec3" where
  "Vec3_sub a b = Vec3 (vec_x a - vec_x b) (vec_y a - vec_y b) (vec_z a - vec_z b)"

definition Vec3_scale :: "Vec3 \<Rightarrow> real \<Rightarrow> Vec3" where
  "Vec3_scale a s = Vec3 (vec_x a * s) (vec_y a * s) (vec_z a * s)"

definition Vec3_length :: "Vec3 \<Rightarrow> real" where
  "Vec3_length a = sqrt (vec_x a * vec_x a + vec_y a * vec_y a + vec_z a * vec_z a)"

definition Vec3_lengthSquared :: "Vec3 \<Rightarrow> real" where
  "Vec3_lengthSquared a = vec_x a * vec_x a + vec_y a * vec_y a + vec_z a * vec_z a"

record AABB =
  aabb_min :: Vec3
  aabb_max :: Vec3

definition AABB_isValid :: "AABB \<Rightarrow> bool" where
  "AABB_isValid b \<longleftrightarrow>
     vec_x (aabb_min b) \<le> vec_x (aabb_max b) \<and>
     vec_y (aabb_min b) \<le> vec_y (aabb_max b) \<and>
     vec_z (aabb_min b) \<le> vec_z (aabb_max b)"

section \<open>Geometry kernel (core/geometry/Transform.h)\<close>

datatype Quaternion = Quaternion (q_w: real) (q_x: real) (q_y: real) (q_z: real)

definition Quaternion_identity :: Quaternion where
  "Quaternion_identity = Quaternion 1 0 0 0"

definition Quaternion_magnitude :: "Quaternion \<Rightarrow> real" where
  "Quaternion_magnitude q = sqrt (q_w q * q_w q + q_x q * q_x q + q_y q * q_y q + q_z q * q_z q)"

definition Quaternion_normalized :: "Quaternion \<Rightarrow> Quaternion" where
  "Quaternion_normalized q =
     (let mag = Quaternion_magnitude q in
      if mag > 0 then Quaternion (q_w q / mag) (q_x q / mag) (q_y q / mag) (q_z q / mag)
      else Quaternion_identity)"

definition Quaternion_conjugate :: "Quaternion \<Rightarrow> Quaternion" where
  "Quaternion_conjugate q = Quaternion (q_w q) (- q_x q) (- q_y q) (- q_z q)"

definition Quaternion_mul :: "Quaternion \<Rightarrow> Quaternion \<Rightarrow> Quaternion" where
  "Quaternion_mul a b = Quaternion
     (q_w a * q_w b - q_x a * q_x b - q_y a * q_y b - q_z a * q_z b)
     (q_w a * q_x b + q_x a * q_w b + q_y a * q_z b - q_z a * q_y b)
     (q_w a * q_y b - q_x a * q_z b + q_y a * q_w b + q_z a * q_x b)
     (q_w a * q_z b + q_x a * q_y b - q_y a * q_x b + q_z a * q_w b)"

definition Quaternion_rotate :: "Quaternion \<Rightarrow> Vec3 \<Rightarrow> Vec3" where
  "Quaternion_rotate q v =
     (let qv = Quaternion 0 (vec_x v) (vec_y v) (vec_z v);
          result = Quaternion_mul (Quaternion_mul q qv) (Quaternion_conjugate q)
      in Vec3 (q_x result) (q_y result) (q_z result))"

text \<open>The dot product that the callers of the kernel write out componentwise.\<close>

definition Quaternion_dot :: "Quaternion \<Rightarrow> Quaternion \<Rightarrow> real" where
  "Quaternion_dot a b = q_w a * q_w b + q_x a * q_x b + q_y a * q_y b + q_z a * q_z b"

record Transform =
  tf_position :: Vec3
  tf_rotation :: Quaternion

text \<open>The three constructors of \<^verbatim>\<open>Transform\<close>; the second renormalizes the rotation.\<close>

definition Transform_identity :: Transform where
  "Transform_identity = \<lparr>tf_position = Vec3 0 0 0, tf_rotation = Quaternion_identity\<rparr>"

definition Transform_make :: "Vec3 \<Rightarrow> Quaternion \<Rightarrow> Transform" where
  "Transform_make p r = \<lparr>tf_position = p, tf_rotation = Quaternion_normalized r\<rparr>"

definition Transform_translation :: "Vec3 \<Rightarrow> Transform" where
  "Transform_translation p = \<lparr>tf_position = p, tf_rotation = Quaternion_identity\<rparr>"

definition Transform_setPosition :: "Transform \<Rightarrow> Vec3 \<Rightarrow> Transform" where
  "Transform_setPosition t p = t\<lparr>tf_position := p\<rparr>"

definition Transform_setRotation :: "Transform \<Rightarrow> Quaternion \<Rightarrow> Transform" where
  "Transform_setRotation t r = t\<lparr>tf_rotation := Quaternion_normalized r\<rparr>"

definition Transform_transformPoint :: "Transform \<Rightarrow> Vec3 \<Rightarrow> Vec3" where
  "Transform_transformPoint t p = Vec3_add (tf_position t) (Quaternion_rotate (tf_rotation t) p)"

section \<open>Structured errors (core/common/Error.h)\<close>

datatype ErrorSeverity = Info | Warning | Error | Fatal

datatype ErrorCode =
    Success
  | SimulationInvalidState | SimulationOutOfBounds | SimulationToolCollision
  | SimulationMaterialError | SimulationStepFailed | SimulationInvalidTool
  | SimulationInvalidMachine
  | GeometryInvalidTransform | GeometryInvalidBounds | GeometryInvalidOperation
  | MaterialGridInvalid | MaterialGridOutOfBounds | MaterialGridResolutionError
  | MachineInvalidPosition | MachineKinematicsError | MachineLimitExceeded
  | ToolInvalidGeometry | ToolInvalidParameters
  | InvalidArgument | InvalidState | NotImplemented | UnknownError

text \<open>The \<^verbatim>\<open>std::uint32_t\<close> value of each enumerator.\<close>

fun ErrorCode_value :: "ErrorCode \<Rightarrow> nat" where
  "ErrorCode_value Success = 0"
| "ErrorCode_value SimulationInvalidState = 1000"
| "ErrorCode_value SimulationOutOfBounds = 1001"
| "ErrorCode_value SimulationToolCollision = 1002"
| "ErrorCode_value SimulationMaterialError = 1003"
| "ErrorCode_value SimulationStepFailed = 1004"
| "ErrorCode_value SimulationInvalidTool = 1005"
| "ErrorCode_value SimulationInvalidMachine = 1006"
| "ErrorCode_value GeometryInvalidTransform = 2000"
| "ErrorCode_value GeometryInvalidBounds = 2001"
| "ErrorCode_value GeometryInvalidOperation = 2002"
| "ErrorCode_value MaterialGridInvalid = 3000"
| "ErrorCode_value MaterialGridOutOfBounds = 3001"
| "ErrorCode_value MaterialGridResolutionError = 3002"
| "ErrorCode_value MachineInvalidPosition = 4000"
| "ErrorCode_value MachineKinematicsError = 4001"
| "ErrorCode_value MachineLimitExceeded = 4002"
| "ErrorCode_value ToolInvalidGeometry = 5000"
| "ErrorCode_value ToolInvalidParameters = 5001"
| "ErrorCode_value InvalidArgument = 9000"
| "ErrorCode_value InvalidState = 9001"
| "ErrorCode_value NotImplemented = 9002"
| "ErrorCode_value UnknownError = 9999"

record Error =
  err_code :: ErrorCode
  err_severity :: ErrorSeverity
  err_message :: string
  err_recoverable :: bool

definition Error_success :: Error where
  "Error_success = \<lparr>err_code = Success, err_severity = Info, err_message = [], err_recoverable = True\<rparr>"

definition Error_isSuccess :: "Error \<Rightarrow> bool" where
  "Error_isSuccess e \<longleftrightarrow> err_code e = Success"

definition Error_isError :: "Error \<Rightarrow> bool" where
  "Error_isError e \<longleftrightarrow> err_code e \<noteq> Success"

definition Error_isRecoverable :: "Error \<Rightarrow> bool" where
  "Error_isRecoverable e \<longleftrightarrow> err_recoverable e"

definition Error_make :: "ErrorCode \<Rightarrow> string \<Rightarrow> bool \<Rightarrow> Error" where
  "Error_make code message recoverable =
     (let v = ErrorCode_value code;
          severity =
            (if ErrorCode_value SimulationInvalidState \<le> v \<and> v \<le> ErrorCode_value SimulationInvalidMachine
               then Error
             else if ErrorCode_value GeometryInvalidTransform \<le> v \<and> v \<le> ErrorCode_value GeometryInvalidOperation
               then Error
             else if ErrorCode_value MaterialGridInvalid \<le> v \<and> v \<le> ErrorCode_value MaterialGridResolutionError
               then Error
             else if code = MachineLimitExceeded then Warning
             else Error)
      in \<lparr>err_code = code, err_severity = severity, err_message = message,
          err_recoverable = recoverable\<rparr>)"

section \<open>Step results (core/sim/StepResult.h)\<close>

record StepResult =
  sr_error :: Error
  sr_materialRemovedVolume :: real
  sr_collisionDetected :: bool
  sr_toolContact :: bool
  sr_timeDelta :: real
  sr_cellsProcessed :: "64 word"

text \<open>The default member initializers of the struct.\<close>

definition StepResult_default :: StepResult where
  "StepResult_default =
     \<lparr>sr_error = Error_success, sr_materialRemovedVolume = 0, sr_collisionDetected = False,
      sr_toolContact = False, sr_timeDelta = 0, sr_cellsProcessed = 0\<rparr>"

definition StepResult_isSuccess :: "StepResult \<Rightarrow> bool" where
  "StepResult_isSuccess r \<longleftrightarrow> Error_isSuccess (sr_error r) \<and> \<not> sr_collisionDetected r"

definition StepResult_hasError :: "StepResult \<Rightarrow> bool" where
  "StepResult_hasError r \<longleftrightarrow> Error_isError (sr_error r)"

definition StepResult_success :: "real \<Rightarrow> StepResult" where
  "StepResult_success timeDelta = StepResult_default\<lparr>sr_timeDelta := timeDelta\<rparr>"

definition StepResult_makeError :: "ErrorCode \<Rightarrow> string \<Rightarrow> bool \<Rightarrow> StepResult" where
  "StepResult_makeError code message recoverable =
     StepResult_default\<lparr>sr_error := Error_make code message recoverable\<rparr>"

definition StepResult_collision :: "string \<Rightarrow> StepResult" where
  "StepResult_collision message =
     StepResult_default\<lparr>sr_collisionDetected := True,
                        sr_error := Error_make SimulationToolCollision message True\<rparr>"

section \<open>Simulation time (core/common/Time.h)\<close>

record SimulationTime =
  time_fixedTimeStep :: real
  time_accumulatedTime :: real
  time_stepCount :: "64 word"

definition SimulationTime_make :: "real \<Rightarrow> SimulationTime" where
  "SimulationTime_make fixedTimeStep =
     \<lparr>time_fixedTimeStep = (if fixedTimeStep > 0 then fixedTimeStep else 0.001),
      time_accumulatedTime = 0, time_stepCount = 0\<rparr>"

definition SimulationTime_step :: "SimulationTime \<Rightarrow> SimulationTime" where
  "SimulationTime_step t =
     t\<lparr>time_accumulatedTime := time_accumulatedTime t + time_fixedTimeStep t,
       time_stepCount := time_stepCount t + 1\<rparr>"

definition SimulationTime_getTimeDelta :: "SimulationTime \<Rightarrow> real" where
  "SimulationTime_getTimeDelta t = time_fixedTimeStep t"

definition SimulationTime_reset :: "SimulationTime \<Rightarrow> SimulationTime" where
  "SimulationTime_reset t = t\<lparr>time_accumulatedTime := 0, time_stepCount := 0\<rparr>"

section \<open>Material grid and simulation state (core/material/MaterialGrid.h, core/sim/SimulationState.h)\<close>

text \<open>
  \<^verbatim>\<open>MaterialGrid\<close> is an interface; \<^verbatim>\<open>VoxelGrid\<close> is its only implementation in the
  repository. The state owns its grid through a nullable \<^verbatim>\<open>unique_ptr\<close>, hence the option.
\<close>

record VoxelGrid =
  grid_bounds :: AABB
  grid_resolution :: real

definition VoxelGrid_isValid :: "VoxelGrid \<Rightarrow> bool" where
  "VoxelGrid_isValid g \<longleftrightarrow> AABB_isValid (grid_bounds g) \<and> grid_resolution g > 0"

record SimulationState =
  state_materialGrid :: "VoxelGrid option"
  state_toolPose :: Transform
  state_machineAxes :: "Axis \<Rightarrow> real"
  state_stepCount :: "64 word"
  state_timeAccumulator :: real
  state_deterministicSeed :: "64 word"

definition SimulationState_make :: "VoxelGrid option \<Rightarrow> Transform \<Rightarrow> SimulationState" where
  "SimulationState_make materialGrid initialToolPose =
     \<lparr>state_materialGrid = materialGrid, state_toolPose = initialToolPose,
      state_machineAxes = (\<lambda>_. 0), state_stepCount = 0, state_timeAccumulator = 0,
      state_deterministicSeed = 0\<rparr>"

definition SimulationState_getStepCount :: "SimulationState \<Rightarrow> 64 word" where
  "SimulationState_getStepCount s = state_stepCount s"

definition SimulationState_incrementStepCount :: "SimulationState \<Rightarrow> SimulationState" where
  "SimulationState_incrementStepCount s = s\<lparr>state_stepCount := state_stepCount s + 1\<rparr>"

definition SimulationState_getTimeAccumulator :: "SimulationState \<Rightarrow> real" where
  "SimulationState_getTimeAccumulator s = state_timeAccumulator s"

definition SimulationState_addTime :: "SimulationState \<Rightarrow> real \<Rightarrow> SimulationState" where
  "SimulationState_addTime s deltaTime = s\<lparr>state_timeAccumulator := state_timeAccumulator s + deltaTime\<rparr>"

definition SimulationState_setDeterministicSeed :: "SimulationState \<Rightarrow> 64 word \<Rightarrow> SimulationState" where
  "SimulationState_setDeterministicSeed s seed = s\<lparr>state_deterministicSeed := seed\<rparr>"

definition SimulationState_isValid :: "SimulationState \<Rightarrow> bool" where
  "SimulationState_isValid s \<longleftrightarrow>
     (case state_materialGrid s of None \<Rightarrow> False | Some g \<Rightarrow> VoxelGrid_isValid g)"

section \<open>Tool sweeps (core/geometry/ToolSweep.h)\<close>

text \<open>The sweep refers to its tool through a pointer it never looks into here: a type parameter.\<close>

record 'tool ToolSweep =
  sweep_tool :: 'tool
  sweep_startTransform :: Transform
  sweep_endTransform :: Transform
  sweep_resolutionHint :: real

definition slerp :: "Quaternion \<Rightarrow> Quaternion \<Rightarrow> real \<Rightarrow> Quaternion" where
  "slerp q1 q2 t =
     (let dot0 = q_w q1 * q_w q2 + q_x q1 * q_x q2 + q_y q1 * q_y q2 + q_z q1 * q_z q2;
          q2Adjusted = (if dot0 < 0 then Quaternion (- q_w q2) (- q_x q2) (- q_y q2) (- q_z q2) else q2);
          dot = (if dot0 < 0 then - dot0 else dot0)
      in if dot > 0.9995 then
           Quaternion_normalized (Quaternion
             (q_w q1 + (q_w q2Adjusted - q_w q1) * t)
             (q_x q1 + (q_x q2Adjusted - q_x q1) * t)
             (q_y q1 + (q_y q2Adjusted - q_y q1) * t)
             (q_z q1 + (q_z q2Adjusted - q_z q1) * t))
         else
           (let theta = arccos dot;
                sinTheta = sin theta;
                w1 = sin ((1 - t) * theta) / sinTheta;
                w2 = sin (t * theta) / sinTheta
            in Quaternion_normalized (Quaternion
                 (q_w q1 * w1 + q_w q2Adjusted * w2)
                 (q_x q1 * w1 + q_x q2Adjusted * w2)
                 (q_y q1 * w1 + q_y q2Adjusted * w2)
                 (q_z q1 * w1 + q_z q2Adjusted * w2))))"

definition ToolSweep_getTransformAt :: "'tool ToolSweep \<Rightarrow> real \<Rightarrow> Transform" where
  "ToolSweep_getTransformAt sw t0 =
     (let t = max 0 (min 1 t0);
          startPos = tf_position (sweep_startTransform sw);
          endPos = tf_position (sweep_endTransform sw);
          pos = Vec3_add startPos (Vec3_scale (Vec3_sub endPos startPos) t);
          rot = slerp (tf_rotation (sweep_startTransform sw)) (tf_rotation (sweep_endTransform sw)) t
      in Transform_make pos rot)"

section \<open>The engine base class (core/sim/SimulationEngineBase.h)\<close>

text \<open>
  The three virtual hooks \<^verbatim>\<open>doInitialize\<close>, \<^verbatim>\<open>doStep\<close> and \<^verbatim>\<open>doReset\<close> are fields of
  the engine: a derived class is a choice of the three functions. They take the state by
  reference, so each returns the state it leaves behind. No derived class is part of the
  sources. A hook is modelled as a function of the state it is handed (and of the sweep), as
  the interface documents engines to operate; members a derived class may add, and whatever
  else its hooks may read, are outside the model.
\<close>

record 'tool SimulationEngineBase =
  eng_engineType :: string
  eng_time :: SimulationTime
  eng_initialized :: bool
  eng_doInitialize :: "SimulationState \<Rightarrow> Error \<times> SimulationState"
  eng_doStep :: "SimulationState \<Rightarrow> 'tool ToolSweep \<Rightarrow> StepResult \<times> SimulationState"
  eng_doReset :: "SimulationState \<Rightarrow> Error \<times> SimulationState"

text \<open>The base class's own \<^verbatim>\<open>doInitialize\<close> and \<^verbatim>\<open>doReset\<close>: no-op, success.\<close>

definition default_doInitialize :: "SimulationState \<Rightarrow> Error \<times> SimulationState" where
  "default_doInitialize state = (Error_success, state)"

definition default_doReset :: "SimulationState \<Rightarrow> Error \<times> SimulationState" where
  "default_doReset state = (Error_success, state)"

definition SimulationEngineBase_make ::
  "string \<Rightarrow> real \<Rightarrow> (SimulationState \<Rightarrow> 'tool ToolSweep \<Rightarrow> StepResult \<times> SimulationState)
     \<Rightarrow> 'tool SimulationEngineBase" where
  "SimulationEngineBase_make engineType fixedTimeStep doStep =
     \<lparr>eng_engineType = engineType, eng_time = SimulationTime_make fixedTimeStep,
      eng_initialized = False, eng_doInitialize = default_doInitialize,
      eng_doStep = doStep, eng_doReset = default_doReset\<rparr>"

definition engine_initialize ::
  "'tool SimulationEngineBase \<Rightarrow> SimulationState
     \<Rightarrow> Error \<times> SimulationState \<times> 'tool SimulationEngineBase" where
  "engine_initialize e state =
     (if \<not> SimulationState_isValid state then
        (Error_make SimulationInvalidState ''Simulation state is invalid'' False, state, e)
      else
        (let (result, state1) = eng_doInitialize e state in
         if Error_isSuccess result then
           (result, state1, e\<lparr>eng_initialized := True, eng_time := SimulationTime_reset (eng_time e)\<rparr>)
         else (result, state1, e)))"

definition engine_step ::
  "'tool SimulationEngineBase \<Rightarrow> SimulationState \<Rightarrow> 'tool ToolSweep
     \<Rightarrow> StepResult \<times> SimulationState \<times> 'tool SimulationEngineBase" where
  "engine_step e state sweep =
     (if \<not> eng_initialized e then
        (StepResult_makeError SimulationInvalidState
           ''Engine not initialized. Call initialize() first.'' True, state, e)
      else if \<not> SimulationState_isValid state then
        (StepResult_makeError SimulationInvalidState ''Simulation state is invalid'' False, state, e)
      else
        (let state1 = SimulationState_incrementStepCount state;
             (result, state2) = eng_doStep e state1 sweep;
             state3 = SimulationState_addTime state2 (SimulationTime_getTimeDelta (eng_time e))
         in (result, state3, e\<lparr>eng_time := SimulationTime_step (eng_time e)\<rparr>)))"

definition engine_reset ::
  "'tool SimulationEngineBase \<Rightarrow> SimulationState
     \<Rightarrow> Error \<times> SimulationState \<times> 'tool SimulationEngineBase" where
  "engine_reset e state =
     (let (result, state1) = eng_doReset e state in
      if Error_isSuccess result then
        (result, state1, e\<lparr>eng_initialized := False, eng_time := SimulationTime_reset (eng_time e)\<rparr>)
      else (result, state1, e))"

definition engine_isInitialized :: "'tool SimulationEngineBase \<Rightarrow> bool" where
  "engine_isInitialized e = eng_initialized e"

section \<open>The step controller (core/sim/StepController.h)\<close>

text \<open>
  The controller owns an \<^verbatim>\<open>ISimulationEngine\<close> through a nullable pointer; the engines of
  the repository all derive from \<^verbatim>\<open>SimulationEngineBase\<close>. Each operation returns its
  result, the state and the controller as it leaves them.
\<close>

record 'tool StepController =
  ctl_engine :: "'tool SimulationEngineBase option"
  ctl_lastResult :: StepResult

definition StepController_make :: "'tool SimulationEngineBase option \<Rightarrow> 'tool StepController" where
  "StepController_make engine =
     \<lparr>ctl_engine = engine,
      ctl_lastResult = (case engine of
         None \<Rightarrow> StepResult_makeError InvalidArgument ''Engine cannot be null'' False
       | Some _ \<Rightarrow> StepResult_default)\<rparr>"

definition StepController_initialize ::
  "'tool StepController \<Rightarrow> SimulationState \<Rightarrow> bool \<times> SimulationState \<times> 'tool StepController" where
  "StepController_initialize c state =
     (case ctl_engine c of
        None \<Rightarrow> (False, state, c\<lparr>ctl_lastResult := StepResult_makeError InvalidState ''Engine is null'' False\<rparr>)
      | Some e \<Rightarrow>
          (let (error, state1, e1) = engine_initialize e state in
           if Error_isSuccess error then
             (True, state1, c\<lparr>ctl_engine := Some e1, ctl_lastResult := StepResult_success 0\<rparr>)
           else
             (False, state1,
              c\<lparr>ctl_engine := Some e1,
                ctl_lastResult := StepResult_makeError (err_code error) (err_message error)
                                    (Error_isRecoverable error)\<rparr>)))"

definition stepOnce ::
  "'tool StepController \<Rightarrow> SimulationState \<Rightarrow> 'tool ToolSweep
     \<Rightarrow> bool \<times> SimulationState \<times> 'tool StepController" where
  "stepOnce c state sweep =
     (case ctl_engine c of
        None \<Rightarrow> (False, state, c\<lparr>ctl_lastResult := StepResult_makeError InvalidState ''Engine is null'' False\<rparr>)
      | Some e \<Rightarrow>
          if \<not> SimulationState_isValid state then
            (False, state,
             c\<lparr>ctl_lastResult := StepResult_makeError SimulationInvalidState
                                    ''Simulation state is invalid'' False\<rparr>)
          else
            (let (result, state1, e1) = engine_step e state sweep in
             (StepResult_isSuccess result, state1,
              c\<lparr>ctl_engine := Some e1, ctl_lastResult := result\<rparr>)))"

text \<open>
  The loop of \<^verbatim>\<open>stepN(state, sweep, numSteps)\<close>: the first argument is the number of
  iterations left, the last is \<^verbatim>\<open>executed\<close>. Both counters are \<^verbatim>\<open>uint64_t\<close> in the
  source; \<^verbatim>\<open>executed\<close> never exceeds \<^verbatim>\<open>numSteps\<close>, so neither wraps.
\<close>

fun stepN_loop ::
  "nat \<Rightarrow> 'tool StepController \<Rightarrow> SimulationState \<Rightarrow> 'tool ToolSweep \<Rightarrow> nat
     \<Rightarrow> nat \<times> SimulationState \<times> 'tool StepController" where
  "stepN_loop 0 c state sweep executed = (executed, state, c)"
| "stepN_loop (Suc k) c state sweep executed =
     (let (ok, state1, c1) = stepOnce c state sweep in
      if \<not> ok then (executed, state1, c1)
      else stepN_loop k c1 state1 sweep (executed + 1))"

definition stepN ::
  "'tool StepController \<Rightarrow> SimulationState \<Rightarrow> 'tool ToolSweep \<Rightarrow> nat
     \<Rightarrow> nat \<times> SimulationState \<times> 'tool StepController" where
  "stepN c state sweep numSteps =
     (if ctl_engine c = None \<or> \<not> SimulationState_isValid state then (0, state, c)
      else stepN_loop numSteps c state sweep 0)"

text \<open>The overload taking one sweep per step.\<close>

fun stepN_sweeps_loop ::
  "'tool ToolSweep list \<Rightarrow> 'tool StepController \<Rightarrow> SimulationState \<Rightarrow> nat
     \<Rightarrow> nat \<times> SimulationState \<times> 'tool StepController" where
  "stepN_sweeps_loop [] c state executed = (executed, state, c)"
| "stepN_sweeps_loop (sweep # sweeps) c state executed =
     (let (ok, state1, c1) = stepOnce c state sweep in
      if \<not> ok then (executed, state1, c1)
      else stepN_sweeps_loop sweeps c1 state1 (executed + 1))"

definition stepN_sweeps ::
  "'tool StepController \<Rightarrow> SimulationState \<Rightarrow> 'tool ToolSweep list
     \<Rightarrow> nat \<times> SimulationState \<times> 'tool StepController" where
  "stepN_sweeps c state sweeps =
     (if ctl_engine c = None \<or> \<not> SimulationState_isValid state \<or> sweeps = [] then (0, state, c)
      else stepN_sweeps_loop sweeps c state 0)"

definition StepController_reset ::
  "'tool StepController \<Rightarrow> SimulationState \<Rightarrow> bool \<times> SimulationState \<times> 'tool StepController" where
  "StepController_reset c state =
     (case ctl_engine c of
        None \<Rightarrow> (False, state, c\<lparr>ctl_lastResult := StepResult_makeError InvalidState ''Engine is null'' False\<rparr>)
      | Some e \<Rightarrow>
          (let (error, state1, e1) = engine_reset e state in
           if Error_isSuccess error then
             (True, state1, c\<lparr>ctl_engine := Some e1, ctl_lastResult := StepResult_success 0\<rparr>)
           else
             (False, state1,
              c\<lparr>ctl_engine := Some e1,
                ctl_lastResult := StepResult_makeError (err_code error) (err_message error)
                                    (Error_isRecoverable error)\<rparr>)))"

definition lastStepHadCollision :: "'tool StepController \<Rightarrow> bool" where
  "lastStepHadCollision c = sr_collisionDetected (ctl_lastResult c)"

section \<open>Machine kinematics (core/machine/MachineKinematics.h, Cartesian3Axis.h)\<close>

text \<open>
  A \<^verbatim>\<open>std::array<double, 6>\<close> indexed by \<^verbatim>\<open>static_cast<int>(Axis)\<close> is a function on
  the six axes.
\<close>

type_synonym AxisPositions = "Axis \<Rightarrow> real"

record ForwardKinematicsResult =
  fk_toolPose :: Transform
  fk_axisPositions :: AxisPositions
  fk_valid :: bool

record InverseKinematicsResult =
  ik_axisPositions :: AxisPositions
  ik_toolPose :: Transform
  ik_valid :: bool

record Cartesian3Axis =
  xLimits :: "real \<times> real"
  yLimits :: "real \<times> real"
  zLimits :: "real \<times> real"

definition Cartesian3Axis_default :: Cartesian3Axis where
  "Cartesian3Axis_default = \<lparr>xLimits = (-1000, 1000), yLimits = (-1000, 1000), zLimits = (-100, 100)\<rparr>"

definition getAxisLimits :: "Cartesian3Axis \<Rightarrow> (real \<times> real) list" where
  "getAxisLimits k = [xLimits k, yLimits k, zLimits k, (0, 0), (0, 0), (0, 0)]"

text \<open>
  The limits of one axis, read from \<^const>\<open>getAxisLimits\<close> at the axis's index.
\<close>

fun Axis_index :: "Axis \<Rightarrow> nat" where
  "Axis_index AxisX = 0"
| "Axis_index AxisY = 1"
| "Axis_index AxisZ = 2"
| "Axis_index AxisA = 3"
| "Axis_index AxisB = 4"
| "Axis_index AxisC = 5"

definition withinAxisLimits :: "Cartesian3Axis \<Rightarrow> AxisPositions \<Rightarrow> bool" where
  "withinAxisLimits k p \<longleftrightarrow>
     list_all (\<lambda>a. fst (getAxisLimits k ! Axis_index a) \<le> p a \<and> p a \<le> snd (getAxisLimits k ! Axis_index a))
       [AxisX, AxisY, AxisZ, AxisA, AxisB, AxisC]"

text \<open>
  When a limit is violated the source returns a default-constructed result with
  \<^verbatim>\<open>valid = false\<close>: the pose is the identity and the array is left uninitialized.
\<close>

definition forwardKinematics :: "Cartesian3Axis \<Rightarrow> AxisPositions \<Rightarrow> ForwardKinematicsResult" where
  "forwardKinematics k axisPositions =
     (let x = axisPositions AxisX; y = axisPositions AxisY; z = axisPositions AxisZ in
      if x < fst (xLimits k) \<or> x > snd (xLimits k) \<or>
         y < fst (yLimits k) \<or> y > snd (yLimits k) \<or>
         z < fst (zLimits k) \<or> z > snd (zLimits k)
      then \<lparr>fk_toolPose = Transform_identity, fk_axisPositions = undefined, fk_valid = False\<rparr>
      else \<lparr>fk_toolPose = Transform_make (Vec3 x y z) Quaternion_identity,
            fk_axisPositions = axisPositions, fk_valid = True\<rparr>)"

definition inverseKinematics :: "Cartesian3Axis \<Rightarrow> Transform \<Rightarrow> InverseKinematicsResult list" where
  "inverseKinematics k targetPose =
     (let x = vec_x (tf_position targetPose);
          y = vec_y (tf_position targetPose);
          z = vec_z (tf_position targetPose) in
      if x < fst (xLimits k) \<or> x > snd (xLimits k) \<or>
         y < fst (yLimits k) \<or> y > snd (yLimits k) \<or>
         z < fst (zLimits k) \<or> z > snd (zLimits k)
      then []
      else
        (let axes = (\<lambda>_. 0)(AxisX := x, AxisY := y, AxisZ := z, AxisA := 0, AxisB := 0, AxisC := 0);
             fkResult = forwardKinematics k axes
         in [\<lparr>ik_axisPositions = axes, ik_toolPose = fk_toolPose fkResult,
               ik_valid = fk_valid fkResult\<rparr>]))"

definition isPoseReachable :: "Cartesian3Axis \<Rightarrow> Transform \<Rightarrow> bool" where
  "isPoseReachable k targetPose =
     (case inverseKinematics k targetPose of [] \<Rightarrow> False | s # _ \<Rightarrow> ik_valid s)"

section \<open>Doubles with their special values\<close>

text \<open>
  The toolpath code tests its numbers with \<^verbatim>\<open>std::isfinite\<close> and compares the results of
  arithmetic that can overflow, so there a \<^verbatim>\<open>double\<close> is a finite value, an infinity or
  NaN. Arithmetic on finite values is exact as long as the result stays within the largest
  finite double and overflows to an infinity beyond it; rounding and underflow inside the
  range are not modelled. Comparisons with NaN are false.
\<close>

datatype double = Fin real | PosInf | NegInf | NaN

definition DBL_MAX :: real where
  "DBL_MAX = (2 ^ 53 - 1) * 2 ^ 971"

definition d_round :: "real \<Rightarrow> double" where
  "d_round r = (if r > DBL_MAX then PosInf else if r < - DBL_MAX then NegInf else Fin r)"

fun isfinite :: "double \<Rightarrow> bool" where
  "isfinite (Fin a) = True"
| "isfinite PosInf = False"
| "isfinite NegInf = False"
| "isfinite NaN = False"

fun d_neg :: "double \<Rightarrow> double" where
  "d_neg (Fin a) = Fin (- a)"
| "d_neg PosInf = NegInf"
| "d_neg NegInf = PosInf"
| "d_neg NaN = NaN"

fun d_add :: "double \<Rightarrow> double \<Rightarrow> double" where
  "d_add (Fin a) (Fin b) = d_round (a + b)"
| "d_add NaN b = NaN"
| "d_add a NaN = NaN"
| "d_add PosInf NegInf = NaN"
| "d_add NegInf PosInf = NaN"
| "d_add PosInf b = PosInf"
| "d_add a PosInf = PosInf"
| "d_add NegInf b = NegInf"
| "d_add a NegInf = NegInf"

definition d_sub :: "double \<Rightarrow> double \<Rightarrow> double" where
  "d_sub a b = d_add a (d_neg b)"

text \<open>The sign of an infinity times a finite value; zero times an infinity is NaN.\<close>

definition d_scale_inf :: "bool \<Rightarrow> real \<Rightarrow> double" where
  "d_scale_inf positive a =
     (if a = 0 then NaN else if (0 < a) = positive then PosInf else NegInf)"

fun d_mul :: "double \<Rightarrow> double \<Rightarrow> double" where
  "d_mul (Fin a) (Fin b) = d_round (a * b)"
| "d_mul NaN b = NaN"
| "d_mul a NaN = NaN"
| "d_mul (Fin a) PosInf = d_scale_inf True a"
| "d_mul (Fin a) NegInf = d_scale_inf False a"
| "d_mul PosInf (Fin b) = d_scale_inf True b"
| "d_mul NegInf (Fin b) = d_scale_inf False b"
| "d_mul PosInf PosInf = PosInf"
| "d_mul NegInf NegInf = PosInf"
| "d_mul PosInf NegInf = NegInf"
| "d_mul NegInf PosInf = NegInf"

fun d_sqrt :: "double \<Rightarrow> double" where
  "d_sqrt (Fin a) = (if a < 0 then NaN else Fin (sqrt a))"
| "d_sqrt PosInf = PosInf"
| "d_sqrt NegInf = NaN"
| "d_sqrt NaN = NaN"

fun d_abs :: "double \<Rightarrow> double" where
  "d_abs (Fin a) = Fin \<bar>a\<bar>"
| "d_abs PosInf = PosInf"
| "d_abs NegInf = PosInf"
| "d_abs NaN = NaN"

fun d_lt :: "double \<Rightarrow> double \<Rightarrow> bool" where
  "d_lt (Fin a) (Fin b) = (a < b)"
| "d_lt NaN b = False"
| "d_lt a NaN = False"
| "d_lt a NegInf = False"
| "d_lt PosInf b = False"
| "d_lt NegInf b = True"
| "d_lt a PosInf = True"

definition d_gt :: "double \<Rightarrow> double \<Rightarrow> bool" where
  "d_gt a b = d_lt b a"

fun d_le :: "double \<Rightarrow> double \<Rightarrow> bool" where
  "d_le (Fin a) (Fin b) = (a \<le> b)"
| "d_le NaN b = False"
| "d_le a NaN = False"
| "d_le NegInf b = True"
| "d_le a PosInf = True"
| "d_le a NegInf = False"
| "d_le PosInf b = False"

definition d_ge :: "double \<Rightarrow> double \<Rightarrow> bool" where
  "d_ge a b = d_le b a"

text \<open>\<^verbatim>\<open>Vec3\<close> as the toolpath code holds it: each component is any double.\<close>

datatype DVec3 = DVec3 (dvec_x: double) (dvec_y: double) (dvec_z: double)

definition DVec3_sub :: "DVec3 \<Rightarrow> DVec3 \<Rightarrow> DVec3" where
  "DVec3_sub a b =
     DVec3 (d_sub (dvec_x a) (dvec_x b)) (d_sub (dvec_y a) (dvec_y b)) (d_sub (dvec_z a) (dvec_z b))"

definition DVec3_lengthSquared :: "DVec3 \<Rightarrow> double" where
  "DVec3_lengthSquared a =
     d_add (d_add (d_mul (dvec_x a) (dvec_x a)) (d_mul (dvec_y a) (dvec_y a)))
           (d_mul (dvec_z a) (dvec_z a))"

definition DVec3_length :: "DVec3 \<Rightarrow> double" where
  "DVec3_length a =
     d_sqrt (d_add (d_add (d_mul (dvec_x a) (dvec_x a)) (d_mul (dvec_y a) (dvec_y a)))
                   (d_mul (dvec_z a) (dvec_z a)))"

section \<open>Toolpath states and moves (core/toolpath)\<close>

datatype CoordinateMode = Absolute | Incremental

datatype CoolantState = CoolantOff | Flood | Mist | Through

record ToolpathState =
  ts_position :: DVec3
  ts_rotaryAxes :: "double \<times> double \<times> double"
  ts_feedRate :: double
  ts_spindleRPM :: double
  ts_activeToolId :: string
  ts_coolantState :: CoolantState
  ts_coordinateMode :: CoordinateMode

text \<open>
  The two constructors; both keep a feed rate or spindle speed only if it is \<^verbatim>\<open>>= 0.0\<close>
  and store zero otherwise (also for NaN, for which the comparison is false).
\<close>

definition ToolpathState_make_rotary ::
  "DVec3 \<Rightarrow> double \<times> double \<times> double \<Rightarrow> double \<Rightarrow> double \<Rightarrow> string \<Rightarrow> CoolantState
     \<Rightarrow> CoordinateMode \<Rightarrow> ToolpathState" where
  "ToolpathState_make_rotary position rotaryAxes feedRate spindleRPM activeToolId coolant mode =
     \<lparr>ts_position = position, ts_rotaryAxes = rotaryAxes,
      ts_feedRate = (if d_ge feedRate (Fin 0) then feedRate else Fin 0),
      ts_spindleRPM = (if d_ge spindleRPM (Fin 0) then spindleRPM else Fin 0),
      ts_activeToolId = activeToolId, ts_coolantState = coolant, ts_coordinateMode = mode\<rparr>"

definition ToolpathState_make ::
  "DVec3 \<Rightarrow> double \<Rightarrow> double \<Rightarrow> string \<Rightarrow> CoolantState \<Rightarrow> CoordinateMode \<Rightarrow> ToolpathState" where
  "ToolpathState_make position feedRate spindleRPM activeToolId coolant mode =
     ToolpathState_make_rotary position (Fin 0, Fin 0, Fin 0) feedRate spindleRPM activeToolId coolant mode"

definition getPosition :: "ToolpathState \<Rightarrow> DVec3" where
  "getPosition s = ts_position s"

definition hasFeedRate :: "ToolpathState \<Rightarrow> bool" where
  "hasFeedRate s \<longleftrightarrow> d_gt (ts_feedRate s) (Fin 0)"

definition isSpindleRunning :: "ToolpathState \<Rightarrow> bool" where
  "isSpindleRunning s \<longleftrightarrow> d_gt (ts_spindleRPM s) (Fin 0)"

definition getActiveToolId :: "ToolpathState \<Rightarrow> string" where
  "getActiveToolId s = ts_activeToolId s"

definition hasActiveTool :: "ToolpathState \<Rightarrow> bool" where
  "hasActiveTool s \<longleftrightarrow> ts_activeToolId s \<noteq> []"

definition ToolpathState_isValid :: "ToolpathState \<Rightarrow> bool" where
  "ToolpathState_isValid s \<longleftrightarrow>
     isfinite (dvec_x (ts_position s)) \<and> isfinite (dvec_y (ts_position s)) \<and>
     isfinite (dvec_z (ts_position s)) \<and>
     isfinite (fst (ts_rotaryAxes s)) \<and> isfinite (fst (snd (ts_rotaryAxes s))) \<and>
     isfinite (snd (snd (ts_rotaryAxes s))) \<and>
     isfinite (ts_feedRate s) \<and> isfinite (ts_spindleRPM s)"

datatype MoveType =
  Rapid | Linear | ArcCW | ArcCCW | Dwell | ToolChange | SpindleStart | SpindleStop

definition isCuttingMove :: "MoveType \<Rightarrow> bool" where
  "isCuttingMove t \<longleftrightarrow> t = Linear \<or> t = ArcCW \<or> t = ArcCCW"

definition isArcMove :: "MoveType \<Rightarrow> bool" where
  "isArcMove t \<longleftrightarrow> t = ArcCW \<or> t = ArcCCW"

definition requiresFeedrate :: "MoveType \<Rightarrow> bool" where
  "requiresFeedrate t = isCuttingMove t"

record ToolpathMove =
  mv_moveType :: MoveType
  mv_startState :: ToolpathState
  mv_endState :: ToolpathState
  mv_arcCenter :: "DVec3 option"
  mv_dwellDuration :: double
  mv_rapidAllowed :: bool

text \<open>The private constructor, and the named factories, which are the only way to a move.\<close>

definition ToolpathMove_make ::
  "MoveType \<Rightarrow> ToolpathState \<Rightarrow> ToolpathState \<Rightarrow> DVec3 option \<Rightarrow> double \<Rightarrow> bool \<Rightarrow> ToolpathMove" where
  "ToolpathMove_make moveType start end arcCenter dwellDuration rapidAllowed =
     \<lparr>mv_moveType = moveType, mv_startState = start, mv_endState = end,
      mv_arcCenter = arcCenter, mv_dwellDuration = dwellDuration, mv_rapidAllowed = rapidAllowed\<rparr>"

definition ToolpathMove_rapid :: "ToolpathState \<Rightarrow> ToolpathState \<Rightarrow> ToolpathMove" where
  "ToolpathMove_rapid start end = ToolpathMove_make Rapid start end None (Fin 0) True"

definition ToolpathMove_linear :: "ToolpathState \<Rightarrow> ToolpathState \<Rightarrow> ToolpathMove" where
  "ToolpathMove_linear start end = ToolpathMove_make Linear start end None (Fin 0) False"

definition ToolpathMove_arc ::
  "MoveType \<Rightarrow> ToolpathState \<Rightarrow> ToolpathState \<Rightarrow> DVec3 \<Rightarrow> ToolpathMove" where
  "ToolpathMove_arc arcType start end center =
     ToolpathMove_make arcType start end (Some center) (Fin 0) False"

definition ToolpathMove_dwell :: "ToolpathState \<Rightarrow> double \<Rightarrow> ToolpathMove" where
  "ToolpathMove_dwell state duration = ToolpathMove_make Dwell state state None duration False"

definition ToolpathMove_toolChange :: "ToolpathState \<Rightarrow> string \<Rightarrow> ToolpathMove" where
  "ToolpathMove_toolChange state newToolId =
     (let endState = state in ToolpathMove_make ToolChange state endState None (Fin 0) False)"

definition ToolpathMove_spindleStart :: "ToolpathState \<Rightarrow> double \<Rightarrow> ToolpathMove" where
  "ToolpathMove_spindleStart state rpm =
     (let endState = state in ToolpathMove_make SpindleStart state endState None (Fin 0) False)"

definition ToolpathMove_spindleStop :: "ToolpathState \<Rightarrow> ToolpathMove" where
  "ToolpathMove_spindleStop state =
     (let endState = state in ToolpathMove_make SpindleStop state endState None (Fin 0) False)"

definition getMoveType :: "ToolpathMove \<Rightarrow> MoveType" where
  "getMoveType m = mv_moveType m"

definition getStartState :: "ToolpathMove \<Rightarrow> ToolpathState" where
  "getStartState m = mv_startState m"

definition getEndState :: "ToolpathMove \<Rightarrow> ToolpathState" where
  "getEndState m = mv_endState m"

definition ToolpathMove_isValid :: "ToolpathMove \<Rightarrow> bool" where
  "ToolpathMove_isValid m \<longleftrightarrow>
     (if \<not> ToolpathState_isValid (mv_startState m) \<or> \<not> ToolpathState_isValid (mv_endState m) then False
      else if requiresFeedrate (mv_moveType m) \<and> \<not> hasFeedRate (mv_endState m) then False
      else if isArcMove (mv_moveType m) \<and> mv_arcCenter m = None then False
      else if mv_moveType m = Rapid \<and> \<not> mv_rapidAllowed m then False
      else True)"

definition isZeroLength :: "ToolpathMove \<Rightarrow> bool" where
  "isZeroLength m \<longleftrightarrow>
     (if mv_moveType m = Dwell \<or> mv_moveType m = ToolChange \<or>
         mv_moveType m = SpindleStart \<or> mv_moveType m = SpindleStop then False
      else d_lt (DVec3_lengthSquared
                   (DVec3_sub (getPosition (mv_endState m)) (getPosition (mv_startState m))))
                (Fin (1 / 10 ^ 12)))"

record Toolpath =
  tp_id :: string
  tp_machineId :: string
  tp_moves :: "ToolpathMove list"
  tp_toolUsage :: "string \<rightharpoonup> nat"

definition Toolpath_make :: "string \<Rightarrow> string \<Rightarrow> Toolpath" where
  "Toolpath_make ident machineId =
     \<lparr>tp_id = ident, tp_machineId = machineId, tp_moves = [], tp_toolUsage = Map.empty\<rparr>"

definition appendMove :: "Toolpath \<Rightarrow> ToolpathMove \<Rightarrow> Toolpath" where
  "appendMove tp move =
     (let tp1 = tp\<lparr>tp_moves := tp_moves tp @ [move]\<rparr> in
      if hasActiveTool (getEndState move) then
        (let toolId = getActiveToolId (getEndState move) in
         tp1\<lparr>tp_toolUsage := (tp_toolUsage tp)(toolId \<mapsto>
                (case tp_toolUsage tp toolId of None \<Rightarrow> 1 | Some n \<Rightarrow> n + 1))\<rparr>)
      else tp1)"

definition Toolpath_isEmpty :: "Toolpath \<Rightarrow> bool" where
  "Toolpath_isEmpty tp \<longleftrightarrow> tp_moves tp = []"

definition getLastState :: "Toolpath \<Rightarrow> ToolpathState" where
  "getLastState tp =
     (if tp_moves tp = [] then
        ToolpathState_make (DVec3 (Fin 0) (Fin 0) (Fin 0)) (Fin 0) (Fin 0) [] CoolantOff Absolute
      else getEndState (last (tp_moves tp)))"

section \<open>Machine definition (core/machine), as far as the validator reads it\<close>

datatype AxisType = AxX | AxY | AxZ | AxA | AxB | AxC | AxCustom

record AxisDefinition =
  axis_type :: AxisType
  axis_minPosition :: double
  axis_maxPosition :: double
  axis_maxVelocity :: double
  axis_maxAcceleration :: double
  axis_resolution :: double

definition AxisDefinition_make ::
  "AxisType \<Rightarrow> double \<Rightarrow> double \<Rightarrow> double \<Rightarrow> double \<Rightarrow> double \<Rightarrow> AxisDefinition" where
  "AxisDefinition_make type minPosition maxPosition maxVelocity maxAcceleration resolution =
     \<lparr>axis_type = type,
      axis_minPosition = (if d_gt minPosition maxPosition then maxPosition else minPosition),
      axis_maxPosition = (if d_gt minPosition maxPosition then minPosition else maxPosition),
      axis_maxVelocity = (if d_gt maxVelocity (Fin 0) then maxVelocity else Fin 0),
      axis_maxAcceleration = (if d_gt maxAcceleration (Fin 0) then maxAcceleration else Fin 0),
      axis_resolution = (if d_gt resolution (Fin 0) then resolution else Fin 0.001)\<rparr>"

record Spindle =
  spindle_maxRPM :: double
  spindle_minRPM :: double
  spindle_power :: double

definition Spindle_make :: "double \<Rightarrow> double \<Rightarrow> double \<Rightarrow> Spindle" where
  "Spindle_make maxRPM minRPM pwr =
     (let mx = (if d_gt maxRPM (Fin 0) then maxRPM else Fin 0);
          mn = (if d_ge minRPM (Fin 0) then minRPM else Fin 0)
      in \<lparr>spindle_maxRPM = (if d_gt mn mx then mn else mx),
          spindle_minRPM = (if d_gt mn mx then mx else mn),
          spindle_power = (if d_ge pwr (Fin 0) then pwr else Fin 0)\<rparr>)"

text \<open>
  Of the machine the validator reads the axis map and the spindle; the tool changer, the
  work envelope and the supported tool types are not consulted and are left out.
\<close>

record Machine =
  machine_id :: string
  machine_name :: string
  machine_axes :: "AxisType \<rightharpoonup> AxisDefinition"
  machine_spindle :: Spindle

definition getAxis :: "Machine \<Rightarrow> AxisType \<Rightarrow> AxisDefinition option" where
  "getAxis m t = machine_axes m t"

section \<open>The toolpath validator (core/toolpath/ToolpathValidator.h)\<close>

text \<open>
  Each \<^verbatim>\<open>throw std::logic_error\<close> of the validator is a constructor: it carries the move
  index the message names, and the values the message prints.
\<close>

datatype AxisEnd = StartPos | EndPos

datatype ValidationError =
    MoveInvalid nat
  | MoveZeroLength nat
  | MoveNoFeedrate nat
  | ArcNoCenter nat
  | ArcInconsistentRadius nat double double double
  | ArcZeroRadius nat
  | RapidNotAllowed nat
  | Discontinuity nat DVec3 DVec3 double
  | AxisLimitExceeded nat AxisEnd AxisType double double double
  | SpindleLimitExceeded nat double double double
  | ToolChangeNoToolId nat
  | CuttingNoActiveTool nat

text \<open>The index a failure names.\<close>

fun error_index :: "ValidationError \<Rightarrow> nat" where
  "error_index (MoveInvalid i) = i"
| "error_index (MoveZeroLength i) = i"
| "error_index (MoveNoFeedrate i) = i"
| "error_index (ArcNoCenter i) = i"
| "error_index (ArcInconsistentRadius i _ _ _) = i"
| "error_index (ArcZeroRadius i) = i"
| "error_index (RapidNotAllowed i) = i"
| "error_index (Discontinuity i _ _ _) = i"
| "error_index (AxisLimitExceeded i _ _ _ _ _) = i"
| "error_index (SpindleLimitExceeded i _ _ _) = i"
| "error_index (ToolChangeNoToolId i) = i"
| "error_index (CuttingNoActiveTool i) = i"

type_synonym Validation = "ValidationError + unit"

text \<open>Statement sequencing: the second check runs only if the first did not throw.\<close>

definition and_then :: "Validation \<Rightarrow> Validation \<Rightarrow> Validation" where
  "and_then r k = (case r of Inl e \<Rightarrow> Inl e | Inr _ \<Rightarrow> k)"

definition passes :: "Validation \<Rightarrow> bool" where
  "passes r \<longleftrightarrow> (case r of Inl _ \<Rightarrow> False | Inr _ \<Rightarrow> True)"

definition validateArc :: "ToolpathMove \<Rightarrow> nat \<Rightarrow> Validation" where
  "validateArc move index =
     (case mv_arcCenter move of
        None \<Rightarrow> Inl (ArcNoCenter index)
      | Some center \<Rightarrow>
          (let start = getPosition (getStartState move);
               end = getPosition (getEndState move);
               startRadius = DVec3_length (DVec3_sub start center);
               endRadius = DVec3_length (DVec3_sub end center);
               radiusError = d_abs (d_sub startRadius endRadius)
           in if d_gt radiusError (Fin (1 / 10 ^ 6)) then
                Inl (ArcInconsistentRadius index startRadius endRadius radiusError)
              else if d_lt startRadius (Fin (1 / 10 ^ 9)) then Inl (ArcZeroRadius index)
              else Inr ()))"

definition validateMove :: "ToolpathMove \<Rightarrow> nat \<Rightarrow> Validation" where
  "validateMove move index =
     (if \<not> ToolpathMove_isValid move then Inl (MoveInvalid index)
      else if isZeroLength move \<and> getMoveType move \<noteq> Dwell \<and> getMoveType move \<noteq> ToolChange \<and>
              getMoveType move \<noteq> SpindleStart \<and> getMoveType move \<noteq> SpindleStop
        then Inl (MoveZeroLength index)
      else if requiresFeedrate (getMoveType move) \<and> \<not> hasFeedRate (getEndState move)
        then Inl (MoveNoFeedrate index)
      else
        and_then (if isArcMove (getMoveType move) then validateArc move index else Inr ())
          (if getMoveType move = Rapid \<and> \<not> mv_rapidAllowed move then Inl (RapidNotAllowed index)
           else Inr ()))"

definition validateContinuity :: "ToolpathMove \<Rightarrow> ToolpathMove \<Rightarrow> nat \<Rightarrow> Validation" where
  "validateContinuity move1 move2 index1 =
     (let end1 = getPosition (getEndState move1);
          start2 = getPosition (getStartState move2);
          distance = DVec3_length (DVec3_sub end1 start2)
      in if d_gt distance (Fin (1 / 10 ^ 6)) then Inl (Discontinuity index1 end1 start2 distance)
         else Inr ())"

text \<open>
  One \<^verbatim>\<open>if (axis) { ... }\<close> block of \<^verbatim>\<open>validateMachineLimits\<close>: the start value is
  checked before the end value; an absent axis checks nothing. The function ends with a
  safe-Z block for rapid moves whose body is empty; it has no counterpart here.
\<close>

definition checkAxisLimits ::
  "AxisDefinition option \<Rightarrow> AxisType \<Rightarrow> double \<Rightarrow> double \<Rightarrow> nat \<Rightarrow> Validation" where
  "checkAxisLimits axis t startV endV index =
     (case axis of
        None \<Rightarrow> Inr ()
      | Some a \<Rightarrow>
          if d_lt startV (axis_minPosition a) \<or> d_gt startV (axis_maxPosition a) then
            Inl (AxisLimitExceeded index StartPos t startV (axis_minPosition a) (axis_maxPosition a))
          else if d_lt endV (axis_minPosition a) \<or> d_gt endV (axis_maxPosition a) then
            Inl (AxisLimitExceeded index EndPos t endV (axis_minPosition a) (axis_maxPosition a))
          else Inr ())"

definition validateMachineLimits :: "ToolpathMove \<Rightarrow> Machine \<Rightarrow> nat \<Rightarrow> Validation" where
  "validateMachineLimits move machine index =
     (let start = getPosition (getStartState move);
          end = getPosition (getEndState move);
          startRotary = ts_rotaryAxes (getStartState move);
          endRotary = ts_rotaryAxes (getEndState move)
      in
      and_then (checkAxisLimits (getAxis machine AxX) AxX (dvec_x start) (dvec_x end) index)
     (and_then (checkAxisLimits (getAxis machine AxY) AxY (dvec_y start) (dvec_y end) index)
     (and_then (checkAxisLimits (getAxis machine AxZ) AxZ (dvec_z start) (dvec_z end) index)
     (and_then (checkAxisLimits (getAxis machine AxA) AxA (fst startRotary) (fst endRotary) index)
     (and_then (checkAxisLimits (getAxis machine AxB) AxB
                  (fst (snd startRotary)) (fst (snd endRotary)) index)
     (and_then (checkAxisLimits (getAxis machine AxC) AxC
                  (snd (snd startRotary)) (snd (snd endRotary)) index)
       (if isSpindleRunning (getEndState move) \<and>
           (d_lt (ts_spindleRPM (getEndState move)) (spindle_minRPM (machine_spindle machine)) \<or>
            d_gt (ts_spindleRPM (getEndState move)) (spindle_maxRPM (machine_spindle machine)))
        then Inl (SpindleLimitExceeded index (ts_spindleRPM (getEndState move))
                    (spindle_minRPM (machine_spindle machine))
                    (spindle_maxRPM (machine_spindle machine)))
        else Inr ())))))))"

text \<open>
  The loop of \<^verbatim>\<open>validateToolConsistency\<close> from index \<open>i\<close> on; \<open>currentToolId\<close> is the
  local the loop assigns.
\<close>

fun toolConsistency_from :: "nat \<Rightarrow> string \<Rightarrow> ToolpathMove list \<Rightarrow> Validation" where
  "toolConsistency_from i currentToolId [] = Inr ()"
| "toolConsistency_from i currentToolId (move # rest) =
     (if getMoveType move = ToolChange \<and> getActiveToolId (getEndState move) = [] then
        Inl (ToolChangeNoToolId i)
      else
        (let currentToolId1 =
               (if getMoveType move = ToolChange then getActiveToolId (getEndState move)
                else currentToolId)
         in if isCuttingMove (getMoveType move) \<and> getActiveToolId (getEndState move) = [] then
              Inl (CuttingNoActiveTool i)
            else toolConsistency_from (Suc i) currentToolId1 rest))"

definition validateToolConsistency :: "Toolpath \<Rightarrow> Machine \<Rightarrow> Validation" where
  "validateToolConsistency toolpath machine = toolConsistency_from 0 [] (tp_moves toolpath)"

text \<open>
  The loop of \<^verbatim>\<open>validate\<close> from index \<open>i\<close> on, over the moves \<open>moves[i..]\<close>: the move
  itself, its continuity with the next move if there is one, then the machine limits if a
  machine was supplied.
\<close>

fun validate_from :: "nat \<Rightarrow> ToolpathMove list \<Rightarrow> Machine option \<Rightarrow> Validation" where
  "validate_from i [] machine = Inr ()"
| "validate_from i (move # rest) machine =
     and_then (validateMove move i)
    (and_then (case rest of [] \<Rightarrow> Inr () | next_move # _ \<Rightarrow> validateContinuity move next_move i)
    (and_then (case machine of None \<Rightarrow> Inr () | Some m \<Rightarrow> validateMachineLimits move m i)
       (validate_from (Suc i) rest machine)))"

definition validate :: "Toolpath \<Rightarrow> Machine option \<Rightarrow> Validation" where
  "validate toolpath machine =
     (if Toolpath_isEmpty toolpath then Inr ()
      else
        and_then (validate_from 0 (tp_moves toolpath) machine)
          (case machine of None \<Rightarrow> Inr () | Some m \<Rightarrow> validateToolConsistency toolpath m))"

definition Toolpath_validator_isValid :: "Toolpath \<Rightarrow> Machine option \<Rightarrow> bool" where
  "Toolpath_validator_isValid toolpath machine = passes (validate toolpath machine)"

section \<open>Example inputs\<close>

definition example_grid :: VoxelGrid where
  "example_grid =
     \<lparr>grid_bounds = \<lparr>aabb_min = Vec3 0 0 0, aabb_max = Vec3 100 100 20\<rparr>, grid_resolution = 1\<rparr>"

definition example_state :: SimulationState where
  "example_state = SimulationState_make (Some example_grid) Transform_identity"

definition example_sweep :: "unit ToolSweep" where
  "example_sweep =
     \<lparr>sweep_tool = (), sweep_startTransform = Transform_identity,
      sweep_endTransform = Transform_translation (Vec3 1 0 0), sweep_resolutionHint = 0\<rparr>"

text \<open>An engine whose \<^verbatim>\<open>doStep\<close> removes nothing and reports success.\<close>

definition example_engine :: "unit SimulationEngineBase" where
  "example_engine =
     SimulationEngineBase_make ''VoxelEngine'' 0.001 (\<lambda>state sweep. (StepResult_success 0.001, state))"

text \<open>The same engine, initialized: what \<^verbatim>\<open>initialize\<close> leaves of it.\<close>

definition example_running_engine :: "unit SimulationEngineBase" where
  "example_running_engine = example_engine\<lparr>eng_initialized := True\<rparr>"

text \<open>An initialized engine whose third step reports a collision.\<close>

definition example_collision_engine :: "unit SimulationEngineBase" where
  "example_collision_engine =
     (SimulationEngineBase_make ''CollidingEngine'' 0.001
        (\<lambda>state sweep.
           if state_stepCount state = 3 then (StepResult_collision ''Collision detected'', state)
           else (StepResult_success 0.001, state)))\<lparr>eng_initialized := True\<rparr>"

definition example_ctl :: "unit StepController" where
  "example_ctl = StepController_make (Some example_collision_engine)"

section \<open>Notions the toolpath properties are stated with\<close>

text \<open>
  The distance between the end position of move \<open>i\<close> and the start position of move \<open>i + 1\<close>,
  as \<^verbatim>\<open>validateContinuity\<close> computes it.
\<close>

definition move_gap :: "ToolpathMove list \<Rightarrow> nat \<Rightarrow> double" where
  "move_gap ms i =
     DVec3_length (DVec3_sub (getPosition (getEndState (ms ! i)))
                             (getPosition (getStartState (ms ! (i + 1)))))"

text \<open>A sequence of moves is chained when each move starts in the state the previous one ended in.\<close>

fun chained :: "ToolpathMove list \<Rightarrow> bool" where
  "chained [] = True"
| "chained [m] = True"
| "chained (a # b # rest) = (getStartState b = getEndState a \<and> chained (b # rest))"

text \<open>The machine-limit step of the validation loop: nothing to check without a machine.\<close>

definition limits_ok :: "Machine option \<Rightarrow> ToolpathMove \<Rightarrow> nat \<Rightarrow> bool" where
  "limits_ok machine move i =
     (case machine of None \<Rightarrow> True | Some m \<Rightarrow> passes (validateMachineLimits move m i))"

text \<open>The distance of a state's position from an arc center, as \<^verbatim>\<open>validateArc\<close> computes it.\<close>

definition arc_radius :: "ToolpathState \<Rightarrow> DVec3 \<Rightarrow> double" where
  "arc_radius st center = DVec3_length (DVec3_sub (getPosition st) center)"

text \<open>The distance of two points in exact arithmetic, for points with finite coordinates.\<close>

fun exact_distance :: "DVec3 \<Rightarrow> DVec3 \<Rightarrow> real option" where
  "exact_distance (DVec3 (Fin a) (Fin b) (Fin c)) (DVec3 (Fin x) (Fin y) (Fin z)) =
     Some (sqrt ((a - x) * (a - x) + (b - y) * (b - y) + (c - z) * (c - z)))"
| "exact_distance p q = None"

section \<open>Example toolpaths\<close>

definition dvec :: "real \<Rightarrow> real \<Rightarrow> real \<Rightarrow> DVec3" where
  "dvec x y z = DVec3 (Fin x) (Fin y) (Fin z)"

definition example_tool_state :: "DVec3 \<Rightarrow> ToolpathState" where
  "example_tool_state p = ToolpathState_make p (Fin 100) (Fin 1000) ''T1'' CoolantOff Absolute"

text \<open>Three linear moves with a gap of 1 after the first and after the second.\<close>

definition example_two_gaps :: Toolpath where
  "example_two_gaps =
     appendMove (appendMove (appendMove (Toolpath_make ''two-gaps'' ''mill'')
       (ToolpathMove_linear (example_tool_state (dvec 0 0 0)) (example_tool_state (dvec 10 0 0))))
       (ToolpathMove_linear (example_tool_state (dvec 10 1 0)) (example_tool_state (dvec 20 1 0))))
       (ToolpathMove_linear (example_tool_state (dvec 20 2 0)) (example_tool_state (dvec 30 2 0)))"

text \<open>Three linear moves, chained but for a gap of 1 after the second.\<close>

definition example_late_gap :: Toolpath where
  "example_late_gap =
     appendMove (appendMove (appendMove (Toolpath_make ''late-gap'' ''mill'')
       (ToolpathMove_linear (example_tool_state (dvec 0 0 0)) (example_tool_state (dvec 10 0 0))))
       (ToolpathMove_linear (example_tool_state (dvec 10 0 0)) (example_tool_state (dvec 10 10 0))))
       (ToolpathMove_linear (example_tool_state (dvec 10 11 0)) (example_tool_state (dvec 20 11 0)))"

text \<open>The same, but the first move ends in a state with no feed rate.\<close>

definition example_no_feed_then_gap :: Toolpath where
  "example_no_feed_then_gap =
     appendMove (appendMove (appendMove (Toolpath_make ''no-feed'' ''mill'')
       (ToolpathMove_linear (example_tool_state (dvec 0 0 0))
          (ToolpathState_make (dvec 10 0 0) (Fin 0) (Fin 1000) ''T1'' CoolantOff Absolute)))
       (ToolpathMove_linear (example_tool_state (dvec 10 0 0)) (example_tool_state (dvec 10 10 0))))
       (ToolpathMove_linear (example_tool_state (dvec 10 11 0)) (example_tool_state (dvec 20 11 0)))"

definition example_chained :: Toolpath where
  "example_chained =
     appendMove (appendMove (Toolpath_make ''chained'' ''mill'')
       (ToolpathMove_linear (example_tool_state (dvec 0 0 0)) (example_tool_state (dvec 10 0 0))))
       (ToolpathMove_linear (example_tool_state (dvec 10 0 0)) (example_tool_state (dvec 10 10 0)))"

text \<open>A full circle of radius 1: the arc ends where it starts.\<close>

definition example_full_circle :: ToolpathMove where
  "example_full_circle =
     ToolpathMove_arc ArcCW (example_tool_state (dvec 1 0 0)) (example_tool_state (dvec 1 0 0))
       (dvec 0 0 0)"

text \<open>
  An arc about the origin from \<^verbatim>\<open>(1e200, 0, 0)\<close> to \<^verbatim>\<open>(2e200, 0, 0)\<close>: the squares of
  both radii exceed the largest finite double.
\<close>

definition example_huge_arc :: ToolpathMove where
  "example_huge_arc =
     ToolpathMove_arc ArcCW (example_tool_state (dvec (10 ^ 200) 0 0))
       (example_tool_state (dvec (2 * 10 ^ 200) 0 0)) (dvec 0 0 0)"

text \<open>A quarter circle of radius 1 whose end state has an infinite spindle speed.\<close>

definition example_infinite_rpm_arc :: ToolpathMove where
  "example_infinite_rpm_arc =
     ToolpathMove_arc ArcCW (example_tool_state (dvec 1 0 0))
       (ToolpathState_make (dvec 0 1 0) (Fin 100) PosInf ''T1'' CoolantOff Absolute) (dvec 0 0 0)"

definition example_machine :: Machine where
  "example_machine =
     \<lparr>machine_id = ''mill'', machine_name = ''Three-axis mill'',
      machine_axes = [AxX \<mapsto> AxisDefinition_make AxX (Fin (-1000)) (Fin 1000) (Fin 100) (Fin 10)
                               (Fin 0.001)],
      machine_spindle = Spindle_make (Fin 24000) (Fin 0) (Fin 5)\<rparr>"

definition example_no_tool_state :: ToolpathState where
  "example_no_tool_state =
     ToolpathState_make (dvec 0 0 0) (Fin 0) (Fin 0) [] CoolantOff Absolute"

definition example_tool_change :: Toolpath where
  "example_tool_change =
     appendMove (Toolpath_make ''tool-change'' ''mill'')
       (ToolpathMove_toolChange example_no_tool_state ''T2'')"

section \<open>Example geometry\<close>

definition example_axes :: AxisPositions where
  "example_axes = (\<lambda>_. 0)(AxisX := 10, AxisY := -20, AxisZ := 5)"

section \<open>Notions the interpolation properties are stated with\<close>

text \<open>The quaternion \<open>-q\<close>, which \<^const>\<open>slerp\<close> substitutes for its second argument.\<close>

definition Quaternion_negated :: "Quaternion \<Rightarrow> Quaternion" where
  "Quaternion_negated q = Quaternion (- q_w q) (- q_x q) (- q_y q) (- q_z q)"

text \<open>The local \<^verbatim>\<open>q2Adjusted\<close> of \<^const>\<open>slerp\<close>.\<close>

definition slerp_target :: "Quaternion \<Rightarrow> Quaternion \<Rightarrow> Quaternion" where
  "slerp_target q1 q2 = (if Quaternion_dot q1 q2 < 0 then Quaternion_negated q2 else q2)"

text \<open>The angle of the rotation that takes the orientation \<open>q1\<close> to the orientation \<open>q\<close>.\<close>

definition rotation_angle :: "Quaternion \<Rightarrow> Quaternion \<Rightarrow> real" where
  "rotation_angle q1 q = 2 * arccos \<bar>Quaternion_dot q1 q\<bar>"

text \<open>The componentwise combination \<open>a q1 + b q2\<close> that both branches of \<^const>\<open>slerp\<close> normalize.\<close>

definition blend :: "real \<Rightarrow> real \<Rightarrow> Quaternion \<Rightarrow> Quaternion \<Rightarrow> Quaternion" where
  "blend a b q1 q2 =
     Quaternion (q_w q1 * a + q_w q2 * b) (q_x q1 * a + q_x q2 * b)
                (q_y q1 * a + q_y q2 * b) (q_z q1 * a + q_z q2 * b)"

text \<open>A half turn about the x axis.\<close>

definition example_half_turn :: Quaternion where
  "example_half_turn = Quaternion 0 1 0 0"

section \<open>Verified properties\<close>

subsection \<open>Engine lifecycle\<close>

lemma example_state_valid: "SimulationState_isValid example_state"
  by (simp add: example_state_def SimulationState_make_def SimulationState_isValid_def example_grid_def
      VoxelGrid_isValid_def AABB_isValid_def)

lemma example_engine_uninitialized: "\<not> engine_isInitialized example_engine"
  by (simp add: engine_isInitialized_def example_engine_def SimulationEngineBase_make_def)

text \<open>
  Claim C2, as amended. Calling \<^verbatim>\<open>step\<close> on an engine that is not initialized returns a
  result carrying an error with code \<^verbatim>\<open>SimulationInvalidState\<close>; the result is not a
  success; the error is flagged recoverable; the state, and so its step counter, and the
  engine are left exactly as they were.
\<close>

theorem step_uninitialized_error:
  assumes "\<not> engine_isInitialized e"
  shows "(case engine_step e state sweep of (r, state', e') \<Rightarrow>
           StepResult_hasError r \<and> \<not> StepResult_isSuccess r \<and>
           err_code (sr_error r) = SimulationInvalidState \<and>
           Error_isRecoverable (sr_error r) \<and>
           state' = state \<and>
           SimulationState_getStepCount state' = SimulationState_getStepCount state \<and>
           e' = e)"
  using assms
  by (simp add: engine_isInitialized_def engine_step_def StepResult_makeError_def
      StepResult_default_def StepResult_hasError_def StepResult_isSuccess_def Error_make_def
      Error_isError_def Error_isSuccess_def Error_isRecoverable_def)

theorem step_uninitialized_error_witness:
  "\<not> engine_isInitialized example_engine \<and>
   (case engine_step example_engine example_state example_sweep of (r, state', e') \<Rightarrow>
      StepResult_hasError r \<and> \<not> StepResult_isSuccess r \<and>
      err_code (sr_error r) = SimulationInvalidState \<and>
      Error_isRecoverable (sr_error r) \<and>
      state' = example_state \<and>
      SimulationState_getStepCount state' = SimulationState_getStepCount example_state \<and>
      e' = example_engine)"
  using example_engine_uninitialized
    step_uninitialized_error [OF example_engine_uninitialized, of example_state example_sweep]
  by simp

text \<open>
  The claim as stated asks for a non-retryable error, that is, one whose recoverable flag is
  false. On a freshly constructed engine and a valid state the flag of the returned error is
  true.
\<close>

theorem step_uninitialized_recoverable_counterexample:
  "Error_isRecoverable (sr_error (fst (engine_step example_engine example_state example_sweep)))"
  by (simp add: example_engine_def SimulationEngineBase_make_def engine_step_def
      StepResult_makeError_def StepResult_default_def Error_make_def Error_isRecoverable_def)

lemma example_engine_initialize:
  "engine_initialize example_engine example_state =
     (Error_success, example_state, example_running_engine)"
  by (simp add: engine_initialize_def example_state_valid example_engine_def
      SimulationEngineBase_make_def default_doInitialize_def Error_isSuccess_def Error_success_def
      example_running_engine_def SimulationTime_reset_def SimulationTime_make_def)

text \<open>
  Claim C3, as amended. A successful \<^verbatim>\<open>reset(state)\<close> leaves the engine Uninitialized and
  clears the engine's own clock (accumulated time 0, step count 0). The state it leaves is the
  one the engine's \<^verbatim>\<open>doReset\<close> hook leaves; under the base class's default hook the state,
  its step counter and its time accumulator are unchanged.
\<close>

theorem reset_success:
  assumes "engine_reset e state = (result, state', e')" and "Error_isSuccess result"
  shows "\<not> engine_isInitialized e' \<and>
         time_accumulatedTime (eng_time e') = 0 \<and> time_stepCount (eng_time e') = 0 \<and>
         (result, state') = eng_doReset e state \<and>
         (eng_doReset e = default_doReset \<longrightarrow>
            state' = state \<and>
            SimulationState_getStepCount state' = SimulationState_getStepCount state \<and>
            SimulationState_getTimeAccumulator state' = SimulationState_getTimeAccumulator state)"
  using assms
  by (auto simp: engine_reset_def engine_isInitialized_def SimulationTime_reset_def
      default_doReset_def split: prod.splits if_splits)

theorem reset_success_witness:
  "engine_reset example_running_engine example_state = (Error_success, example_state, example_engine) \<and>
   Error_isSuccess Error_success \<and>
   \<not> engine_isInitialized example_engine \<and>
   time_accumulatedTime (eng_time example_engine) = 0 \<and>
   time_stepCount (eng_time example_engine) = 0 \<and>
   (Error_success, example_state) = eng_doReset example_running_engine example_state \<and>
   eng_doReset example_running_engine = default_doReset"
proof -
  have a: "engine_reset example_running_engine example_state =
             (Error_success, example_state, example_engine)"
    by (simp add: engine_reset_def example_running_engine_def example_engine_def
        SimulationEngineBase_make_def default_doReset_def Error_isSuccess_def Error_success_def
        SimulationTime_reset_def SimulationTime_make_def)
  have b: "Error_isSuccess Error_success"
    by (simp add: Error_isSuccess_def Error_success_def)
  have c: "eng_doReset example_running_engine = default_doReset"
    by (simp add: example_running_engine_def example_engine_def SimulationEngineBase_make_def)
  from reset_success [OF a b] a b c show ?thesis by simp
qed

text \<open>
  The claim as stated fails: initialize, two successful steps, then a successful reset leave
  the state's step counter at 2 and its time accumulator at 0.002.
\<close>

theorem reset_keeps_counters_counterexample:
  "(case engine_initialize example_engine example_state of (r0, s1, e1) \<Rightarrow>
    case engine_step e1 s1 example_sweep of (r1, s2, e2) \<Rightarrow>
    case engine_step e2 s2 example_sweep of (r2, s3, e3) \<Rightarrow>
    case engine_reset e3 s3 of (r3, s4, e4) \<Rightarrow>
      Error_isSuccess r0 \<and> StepResult_isSuccess r1 \<and> StepResult_isSuccess r2 \<and>
      Error_isSuccess r3 \<and>
      SimulationState_getStepCount s4 = 2 \<and> SimulationState_getStepCount s4 \<noteq> 0 \<and>
      SimulationState_getTimeAccumulator s4 = 0.002 \<and>
      SimulationState_getTimeAccumulator s4 \<noteq> 0)"
  by (simp add: example_engine_def SimulationEngineBase_make_def engine_initialize_def
      example_state_valid default_doInitialize_def Error_success_def Error_isSuccess_def
      engine_step_def SimulationState_incrementStepCount_def SimulationState_addTime_def
      SimulationState_isValid_def example_state_def SimulationState_make_def example_grid_def
      VoxelGrid_isValid_def AABB_isValid_def StepResult_success_def StepResult_default_def
      StepResult_isSuccess_def SimulationTime_getTimeDelta_def SimulationTime_make_def
      SimulationTime_reset_def SimulationTime_step_def engine_reset_def default_doReset_def
      SimulationState_getStepCount_def SimulationState_getTimeAccumulator_def)

subsection \<open>Collisions stop the step loop\<close>

lemma stepOnce_collision_fails:
  "stepOnce c state sweep = (ok, state1, c1) \<Longrightarrow> lastStepHadCollision c1 \<Longrightarrow> \<not> ok"
  by (auto simp: stepOnce_def lastStepHadCollision_def StepResult_isSuccess_def
      split: option.splits if_splits prod.splits)

lemma stepOnce_precheck_no_collision:
  "ctl_engine c = None \<or> \<not> SimulationState_isValid state \<Longrightarrow>
   stepOnce c state sweep = (ok, state1, c1) \<Longrightarrow> \<not> lastStepHadCollision c1"
  by (auto simp: stepOnce_def lastStepHadCollision_def StepResult_makeError_def
      StepResult_default_def split: option.splits if_splits)

text \<open>If \<open>k\<close> iterations all succeed, a longer loop continues from where they ended.\<close>

lemma stepN_loop_executed:
  "stepN_loop k c state sweep ex = (ex + k, sk, ck) \<Longrightarrow>
   stepN_loop (k + m) c state sweep ex = stepN_loop m ck sk sweep (ex + k)"
proof (induction k arbitrary: c state ex)
  case 0
  then show ?case by simp
next
  case (Suc k)
  obtain ok s1 c1 where so: "stepOnce c state sweep = (ok, s1, c1)"
    by (cases "stepOnce c state sweep") auto
  show ?case
  proof (cases ok)
    case True
    with Suc.prems so have "stepN_loop k c1 s1 sweep (ex + 1) = (ex + 1 + k, sk, ck)" by simp
    from Suc.IH [OF this] show ?thesis using so True by simp
  next
    case False
    with Suc.prems so show ?thesis by simp
  qed
qed

text \<open>The count returned never exceeds the number of steps asked for.\<close>

lemma stepN_loop_le: "fst (stepN_loop k c state sweep ex) \<le> ex + k"
proof (induction k arbitrary: c state ex)
  case 0
  then show ?case by simp
next
  case (Suc k)
  obtain ok s1 c1 where so: "stepOnce c state sweep = (ok, s1, c1)"
    by (cases "stepOnce c state sweep") auto
  show ?case using so Suc.IH [of c1 s1 "ex + 1"] by (cases ok) auto
qed

lemma stepN_stops:
  assumes run: "stepN c state sweep k = (k, sk, ck)"
    and next_step: "stepOnce ck sk sweep = (ok, state', c')"
    and coll: "lastStepHadCollision c'"
    and more: "k < n"
  shows "stepN c state sweep n = (k, state', c')"
proof -
  have notok: "\<not> ok" using stepOnce_collision_fails [OF next_step coll] .
  obtain m where n: "n = k + Suc m" using more less_iff_Suc_add by auto
  show ?thesis
  proof (cases "ctl_engine c = None \<or> \<not> SimulationState_isValid state")
    case True
    with run have "k = 0" "sk = state" "ck = c" by (auto simp: stepN_def)
    with True next_step coll stepOnce_precheck_no_collision show ?thesis by blast
  next
    case False
    with run have "stepN_loop k c state sweep 0 = (0 + k, sk, ck)" by (simp add: stepN_def)
    from stepN_loop_executed [OF this, of "Suc m"]
    have "stepN_loop n c state sweep 0 = stepN_loop (Suc m) ck sk sweep k" by (simp add: n)
    also have "\<dots> = (k, state', c')" using next_step notok by simp
    finally show ?thesis using False by (auto simp: stepN_def)
  qed
qed

text \<open>
  Claim C10. A result with \<^verbatim>\<open>collisionDetected\<close> set is never a success, whatever its
  error says. A \<^verbatim>\<open>stepOnce\<close> whose result has the flag set returns false. If the first
  \<open>k\<close> steps of a run all succeed and the next step reports a collision, then
  \<^verbatim>\<open>stepN\<close> asked for any \<open>n > k\<close> steps returns \<open>k\<close>, with the state and the controller
  as that colliding step left them: no step runs after it.
\<close>

theorem collision_stops_stepping:
  "(sr_collisionDetected r \<longrightarrow> \<not> StepResult_isSuccess r) \<and>
   (stepOnce c0 state0 sweep0 = (ok, state1, c1) \<and> lastStepHadCollision c1 \<longrightarrow> \<not> ok) \<and>
   (stepN c state sweep k = (k, sk, ck) \<and> stepOnce ck sk sweep = (ok', state', c') \<and>
      lastStepHadCollision c' \<and> k < n \<longrightarrow> stepN c state sweep n = (k, state', c'))"
  using stepOnce_collision_fails stepN_stops
  by (simp add: StepResult_isSuccess_def) blast

lemmas example_run_simps =
  example_ctl_def StepController_make_def example_collision_engine_def
  SimulationEngineBase_make_def stepN_def stepOnce_def engine_step_def example_state_def
  SimulationState_make_def SimulationState_isValid_def example_grid_def VoxelGrid_isValid_def
  AABB_isValid_def SimulationState_incrementStepCount_def SimulationState_addTime_def
  SimulationTime_getTimeDelta_def SimulationTime_make_def SimulationTime_step_def
  StepResult_success_def StepResult_collision_def StepResult_default_def
  StepResult_isSuccess_def Error_isSuccess_def Error_success_def Error_make_def
  lastStepHadCollision_def

lemma example_run_two: "fst (stepN example_ctl example_state example_sweep 2) = 2"
  by (simp add: example_run_simps numeral_2_eq_2)

lemma example_run_third_collides:
  "lastStepHadCollision (snd (snd (stepOnce
      (snd (snd (stepN example_ctl example_state example_sweep 2)))
      (fst (snd (stepN example_ctl example_state example_sweep 2))) example_sweep)))"
  by (simp add: example_run_simps numeral_2_eq_2)

theorem collision_stops_stepping_witness:
  "sr_collisionDetected (StepResult_collision ''Collision detected'') \<and>
   \<not> StepResult_isSuccess (StepResult_collision ''Collision detected'') \<and>
   fst (stepN example_ctl example_state example_sweep 2) = 2 \<and>
   lastStepHadCollision (snd (snd (stepOnce
       (snd (snd (stepN example_ctl example_state example_sweep 2)))
       (fst (snd (stepN example_ctl example_state example_sweep 2))) example_sweep))) \<and>
   \<not> fst (stepOnce (snd (snd (stepN example_ctl example_state example_sweep 2)))
       (fst (snd (stepN example_ctl example_state example_sweep 2))) example_sweep) \<and>
   (2::nat) < 5 \<and>
   stepN example_ctl example_state example_sweep 5 =
     (2, snd (stepOnce (snd (snd (stepN example_ctl example_state example_sweep 2)))
       (fst (snd (stepN example_ctl example_state example_sweep 2))) example_sweep))"
proof -
  let ?run = "stepN example_ctl example_state example_sweep 2"
  let ?once = "stepOnce (snd (snd ?run)) (fst (snd ?run)) example_sweep"
  have a: "sr_collisionDetected (StepResult_collision ''Collision detected'')"
    by (simp add: StepResult_collision_def)
  have b: "?run = (2, fst (snd ?run), snd (snd ?run))"
    using example_run_two by (metis prod.collapse)
  have c: "?once = (fst ?once, fst (snd ?once), snd (snd ?once))" by simp
  have d: "(2::nat) < 5" by simp
  from collision_stops_stepping [where r = "StepResult_collision ''Collision detected''"
      and ?c0.0 = "snd (snd ?run)" and ?state0.0 = "fst (snd ?run)" and ?sweep0.0 = example_sweep
      and ok = "fst ?once" and ?state1.0 = "fst (snd ?once)" and ?c1.0 = "snd (snd ?once)"
      and c = example_ctl and state = example_state and sweep = example_sweep and k = 2
      and sk = "fst (snd ?run)" and ck = "snd (snd ?run)"
      and ok' = "fst ?once" and state' = "fst (snd ?once)" and c' = "snd (snd ?once)" and n = 5]
    a b c d example_run_third_collides example_run_two
  show ?thesis by simp
qed

subsection \<open>Toolpath validation\<close>

lemma passes_Inr [simp]: "passes (Inr u)"
  by (simp add: passes_def)
lemma passes_Inl [simp]: "\<not> passes (Inl e)"
  by (simp add: passes_def)

lemma passes_and_then [simp]: "passes (and_then a b) \<longleftrightarrow> passes a \<and> passes b"
  by (cases a) (simp_all add: and_then_def)

lemma and_then_Inr [simp]: "and_then (Inr u) b = b"
  by (simp add: and_then_def)
lemma and_then_Inl [simp]: "and_then (Inl e) b = Inl e"
  by (simp add: and_then_def)

lemma passes_iff: "passes r \<longleftrightarrow> r = Inr ()"
  by (cases r) auto

lemma tp_moves_appendMove [simp]: "tp_moves (appendMove tp m) = tp_moves tp @ [m]"
  by (simp add: appendMove_def Let_def)

lemma DBL_MAX_pos: "0 < DBL_MAX"
  by (simp add: DBL_MAX_def)

lemma d_round_zero [simp]: "d_round 0 = Fin 0"
  using DBL_MAX_pos by (simp add: d_round_def)

lemma DBL_MAX_bounds: "10 ^ 308 < DBL_MAX" "DBL_MAX < 10 ^ 309"
  by (simp_all add: DBL_MAX_def)

lemma d_round_Fin: "\<bar>r\<bar> \<le> 10 ^ 308 \<Longrightarrow> d_round r = Fin r"
  using DBL_MAX_bounds(1) by (auto simp: d_round_def)

lemma d_round_small: "\<bar>r\<bar> \<le> 10 ^ 6 \<Longrightarrow> d_round r = Fin r"
proof -
  assume "\<bar>r\<bar> \<le> 10 ^ 6"
  moreover have "(10::real) ^ 6 \<le> 10 ^ 308" by (rule power_increasing) simp_all
  ultimately show ?thesis using d_round_Fin[of r] by linarith
qed

lemma d_round_PosInf: "10 ^ 309 \<le> r \<Longrightarrow> d_round r = PosInf"
  using DBL_MAX_bounds(2) by (auto simp: d_round_def)

lemma d_sub_self: "d_sub c c = Fin 0 \<or> d_sub c c = NaN"
  by (cases c) (simp_all add: d_sub_def)

lemma d_gt_NaN [simp]: "\<not> d_gt NaN b" "\<not> d_gt a NaN"
  by (cases b; simp add: d_gt_def)+

lemma DVec3_length_self: "0 \<le> t \<Longrightarrow> \<not> d_gt (DVec3_length (DVec3_sub v v)) (Fin t)"
proof (cases v)
  case (DVec3 x y z)
  assume "0 \<le> t"
  with d_sub_self[of x] d_sub_self[of y] d_sub_self[of z] show ?thesis
    unfolding DVec3 by (auto simp: DVec3_length_def DVec3_sub_def d_gt_def)
qed

lemma toolConsistency_from_fails:
  "m \<in> set ms \<Longrightarrow> getMoveType m = ToolChange \<Longrightarrow> getActiveToolId (getEndState m) = [] \<Longrightarrow>
   \<not> passes (toolConsistency_from i cur ms)"
  by (induction ms arbitrary: i cur) auto

text \<open>
  Claim C9. \<^verbatim>\<open>ToolpathMove::toolChange(s, n)\<close> returns a move whose end state is \<open>s\<close>: the
  new tool id \<open>n\<close> is ignored, and the active tool id of the end state is that of \<open>s\<close>. So if
  \<open>s\<close> has an empty active tool id, every toolpath that contains the move fails
  \<^verbatim>\<open>validateToolConsistency\<close>, for every machine.
\<close>

theorem toolChange_ignores_new_tool:
  "getEndState (ToolpathMove_toolChange s n) = s \<and>
   getActiveToolId (getEndState (ToolpathMove_toolChange s n)) = getActiveToolId s \<and>
   (getActiveToolId s = [] \<and> ToolpathMove_toolChange s n \<in> set (tp_moves tp) \<longrightarrow>
      \<not> passes (validateToolConsistency tp machine))"
proof -
  have a: "getEndState (ToolpathMove_toolChange s n) = s"
    by (simp add: ToolpathMove_toolChange_def getEndState_def ToolpathMove_make_def)
  have b: "getMoveType (ToolpathMove_toolChange s n) = ToolChange"
    by (simp add: ToolpathMove_toolChange_def getMoveType_def ToolpathMove_make_def)
  show ?thesis using a b toolConsistency_from_fails[of "ToolpathMove_toolChange s n" "tp_moves tp" 0 "[]"]
    by (auto simp: validateToolConsistency_def)
qed

theorem toolChange_ignores_new_tool_witness:
  "getEndState (ToolpathMove_toolChange example_no_tool_state ''T2'') = example_no_tool_state \<and>
   getActiveToolId (getEndState (ToolpathMove_toolChange example_no_tool_state ''T2'')) =
     getActiveToolId example_no_tool_state \<and>
   getActiveToolId (getEndState (ToolpathMove_toolChange example_no_tool_state ''T2'')) \<noteq> ''T2'' \<and>
   getActiveToolId example_no_tool_state = [] \<and>
   ToolpathMove_toolChange example_no_tool_state ''T2'' \<in> set (tp_moves example_tool_change) \<and>
   \<not> passes (validateToolConsistency example_tool_change example_machine)"
proof -
  have a: "getActiveToolId example_no_tool_state = []"
    by (simp add: example_no_tool_state_def getActiveToolId_def ToolpathState_make_def
        ToolpathState_make_rotary_def)
  have b: "ToolpathMove_toolChange example_no_tool_state ''T2'' \<in> set (tp_moves example_tool_change)"
    by (simp add: example_tool_change_def Toolpath_make_def)
  from toolChange_ignores_new_tool [of example_no_tool_state "''T2''" example_tool_change example_machine] a b
  show ?thesis by simp
qed

lemma validate_from_Cons_passes:
  "passes (validate_from k (a # ms) machine) \<longleftrightarrow>
     passes (validateMove a k) \<and>
     (0 < length ms \<longrightarrow> passes (validateContinuity a (ms ! 0) k)) \<and>
     (case machine of None \<Rightarrow> True | Some m \<Rightarrow> passes (validateMachineLimits a m k)) \<and>
     passes (validate_from (Suc k) ms machine)"
  by (cases ms; cases machine) auto

lemma validate_from_passes:
  "passes (validate_from k ms machine) \<longleftrightarrow>
     (\<forall>j<length ms. passes (validateMove (ms ! j) (k + j)) \<and>
        (j + 1 < length ms \<longrightarrow> passes (validateContinuity (ms ! j) (ms ! (j + 1)) (k + j))) \<and>
        (case machine of None \<Rightarrow> True | Some m \<Rightarrow> passes (validateMachineLimits (ms ! j) m (k + j))))"
proof (induction ms arbitrary: k)
  case Nil
  then show ?case by simp
next
  case (Cons a ms)
  show ?case
    unfolding validate_from_Cons_passes Cons.IH length_Cons All_less_Suc2
    by (cases machine) auto
qed

lemma validate_from_first_failure:
  assumes "i + 1 < length ms"
    and "\<forall>j\<le>i. passes (validateMove (ms ! j) (k + j))"
    and "\<forall>j<i. passes (validateContinuity (ms ! j) (ms ! (j + 1)) (k + j))"
    and "\<forall>j<i. limits_ok machine (ms ! j) (k + j)"
    and "validateContinuity (ms ! i) (ms ! (i + 1)) (k + i) = Inl e"
  shows "validate_from k ms machine = Inl e"
  using assms
proof (induction i arbitrary: ms k)
  case 0
  then obtain a b rest where ms: "ms = a # b # rest"
    by (cases ms; cases "tl ms") auto
  with 0 show ?case by (auto simp: passes_iff)
next
  case (Suc i)
  then obtain a b rest where ms: "ms = a # b # rest"
    by (cases ms; cases "tl ms") auto
  have head: "validateMove a k = Inr ()" "validateContinuity a b k = Inr ()"
    "(case machine of None \<Rightarrow> Inr () | Some m \<Rightarrow> validateMachineLimits a m k) = Inr ()"
    using Suc.prems(2)[rule_format, of 0] Suc.prems(3)[rule_format, of 0] Suc.prems(4)[rule_format, of 0]
    by (auto simp: ms passes_iff limits_ok_def split: option.splits)
  have "validate_from (Suc k) (b # rest) machine = Inl e"
  proof (rule Suc.IH)
    show "i + 1 < length (b # rest)" using Suc.prems(1) ms by simp
    show "\<forall>j\<le>i. passes (validateMove ((b # rest) ! j) (Suc k + j))"
      using Suc.prems(2) ms by (auto dest: spec[where x = "Suc _"])
    show "\<forall>j<i. passes (validateContinuity ((b # rest) ! j) ((b # rest) ! (j + 1)) (Suc k + j))"
      using Suc.prems(3) ms by (auto dest: spec[where x = "Suc _"])
    show "\<forall>j<i. limits_ok machine ((b # rest) ! j) (Suc k + j)"
      using Suc.prems(4) ms by (auto dest: spec[where x = "Suc _"])
    show "validateContinuity ((b # rest) ! i) ((b # rest) ! (i + 1)) (Suc k + i) = Inl e"
      using Suc.prems(5) ms by simp
  qed
  with head show ?case by (simp add: ms)
qed

lemma chained_continuity:
  "chained ms \<Longrightarrow> j + 1 < length ms \<Longrightarrow> passes (validateContinuity (ms ! j) (ms ! (j + 1)) k)"
proof (induction ms arbitrary: j rule: chained.induct)
  case (3 a b rest)
  show ?case
  proof (cases j)
    case 0
    with 3 show ?thesis
      by (simp add: validateContinuity_def DVec3_length_self Let_def)
  next
    case (Suc j')
    with 3 show ?thesis by simp
  qed
qed simp_all

lemmas d_simps = d_sub_def d_gt_def d_ge_def d_round_small d_scale_inf_def
  DVec3_length_def DVec3_lengthSquared_def DVec3_sub_def dvec_def

lemmas tp_simps = example_tool_state_def appendMove_def Toolpath_make_def ToolpathMove_linear_def ToolpathMove_make_def
  ToolpathState_make_def ToolpathState_make_rotary_def getEndState_def getStartState_def getPosition_def
  hasActiveTool_def getActiveToolId_def move_gap_def
  validate_def Toolpath_isEmpty_def validateMove_def validateContinuity_def ToolpathMove_isValid_def
  ToolpathState_isValid_def requiresFeedrate_def isCuttingMove_def isArcMove_def hasFeedRate_def
  isZeroLength_def getMoveType_def d_simps

text \<open>
  The claim as stated asks that validation names index \<open>i\<close> whenever the gap after move \<open>i\<close>
  exceeds the tolerance. With gaps after move 0 and after move 1, validation names index 0,
  not 1; and with a single gap after move 1 but a first move without a feed rate, validation
  reports move 0 as invalid.
\<close>

theorem continuity_first_violation_counterexample:
  "d_gt (move_gap (tp_moves example_two_gaps) 1) (Fin (1 / 10 ^ 6)) \<and>
   move_gap (tp_moves example_two_gaps) 1 = Fin 1 \<and>
   validate example_two_gaps None = Inl (Discontinuity 0 (dvec 10 0 0) (dvec 10 1 0) (Fin 1)) \<and>
   error_index (Discontinuity 0 (dvec 10 0 0) (dvec 10 1 0) (Fin 1)) \<noteq> 1 \<and>
   d_gt (move_gap (tp_moves example_no_feed_then_gap) 1) (Fin (1 / 10 ^ 6)) \<and>
   move_gap (tp_moves example_no_feed_then_gap) 1 = Fin 1 \<and>
   validate example_no_feed_then_gap None = Inl (MoveInvalid 0)"
  by (simp add: example_two_gaps_def example_no_feed_then_gap_def tp_simps Let_def)

lemma validateContinuity_gap:
  "validateContinuity (ms ! i) (ms ! Suc i) k =
     (if d_gt (move_gap ms i) (Fin (1 / 10 ^ 6))
      then Inl (Discontinuity k (getPosition (getEndState (ms ! i)))
                  (getPosition (getStartState (ms ! Suc i))) (move_gap ms i))
      else Inr ())"
  by (simp add: validateContinuity_def move_gap_def Let_def)

text \<open>
  Claim C4, as amended. Whenever the gap between the end position of move \<open>i\<close> and the start
  position of move \<open>i + 1\<close> exceeds \<^verbatim>\<open>1e-6\<close>, validation fails. The failure is the
  discontinuity naming index \<open>i\<close> when that gap is the first violation the walk meets: the
  moves up to \<open>i\<close> each pass \<^verbatim>\<open>validateMove\<close>, and the moves before \<open>i\<close> have no gap
  above \<^verbatim>\<open>1e-6\<close> and pass the machine limits. In a chained toolpath every continuity check
  passes, and the toolpath is accepted (no machine supplied) as soon as each of its moves
  passes \<^verbatim>\<open>validateMove\<close>.
\<close>

theorem continuity_validation:
  "(i + 1 < length (tp_moves tp) \<and> d_gt (move_gap (tp_moves tp) i) (Fin (1 / 10 ^ 6)) \<longrightarrow>
      \<not> passes (validate tp machine)) \<and>
   (i + 1 < length (tp_moves tp) \<and> d_gt (move_gap (tp_moves tp) i) (Fin (1 / 10 ^ 6)) \<and>
    (\<forall>j\<le>i. passes (validateMove (tp_moves tp ! j) j)) \<and>
    (\<forall>j<i. \<not> d_gt (move_gap (tp_moves tp) j) (Fin (1 / 10 ^ 6)) \<and>
            limits_ok machine (tp_moves tp ! j) j) \<longrightarrow>
      validate tp machine =
        Inl (Discontinuity i (getPosition (getEndState (tp_moves tp ! i)))
               (getPosition (getStartState (tp_moves tp ! (i + 1)))) (move_gap (tp_moves tp) i))) \<and>
   (chained (tp_moves tp0) \<longrightarrow>
      (\<forall>j. j + 1 < length (tp_moves tp0) \<longrightarrow>
           passes (validateContinuity (tp_moves tp0 ! j) (tp_moves tp0 ! (j + 1)) j)) \<and>
      ((\<forall>j<length (tp_moves tp0). passes (validateMove (tp_moves tp0 ! j) j)) \<longrightarrow>
           passes (validate tp0 None)))"
proof (intro conjI impI)
  assume a: "i + 1 < length (tp_moves tp) \<and> d_gt (move_gap (tp_moves tp) i) (Fin (1 / 10 ^ 6))"
  then have "\<not> passes (validateContinuity (tp_moves tp ! i) (tp_moves tp ! (i + 1)) (0 + i))"
    by (simp add: validateContinuity_gap)
  with a have "\<not> passes (validate_from 0 (tp_moves tp) machine)"
    unfolding validate_from_passes by (metis add_lessD1)
  with a show "\<not> passes (validate tp machine)"
    by (auto simp: validate_def Toolpath_isEmpty_def)
next
  assume a: "i + 1 < length (tp_moves tp) \<and> d_gt (move_gap (tp_moves tp) i) (Fin (1 / 10 ^ 6)) \<and>
    (\<forall>j\<le>i. passes (validateMove (tp_moves tp ! j) j)) \<and>
    (\<forall>j<i. \<not> d_gt (move_gap (tp_moves tp) j) (Fin (1 / 10 ^ 6)) \<and>
            limits_ok machine (tp_moves tp ! j) j)"
  let ?e = "Discontinuity i (getPosition (getEndState (tp_moves tp ! i)))
               (getPosition (getStartState (tp_moves tp ! (i + 1)))) (move_gap (tp_moves tp) i)"
  have "validate_from 0 (tp_moves tp) machine = Inl ?e"
  proof (rule validate_from_first_failure[where i = i])
    show "i + 1 < length (tp_moves tp)" using a by simp
    show "\<forall>j\<le>i. passes (validateMove (tp_moves tp ! j) (0 + j))" using a by simp
    show "\<forall>j<i. passes (validateContinuity (tp_moves tp ! j) (tp_moves tp ! (j + 1)) (0 + j))"
      using a by (auto simp: validateContinuity_gap)
    show "\<forall>j<i. limits_ok machine (tp_moves tp ! j) (0 + j)" using a by simp
    show "validateContinuity (tp_moves tp ! i) (tp_moves tp ! (i + 1)) (0 + i) = Inl ?e"
      using a by (simp add: validateContinuity_gap)
  qed
  with a show "validate tp machine = Inl ?e"
    by (auto simp: validate_def Toolpath_isEmpty_def)
next
  assume c: "chained (tp_moves tp0)"
  show "\<forall>j. j + 1 < length (tp_moves tp0) \<longrightarrow>
           passes (validateContinuity (tp_moves tp0 ! j) (tp_moves tp0 ! (j + 1)) j)"
    using chained_continuity[OF c] by blast
next
  assume c: "chained (tp_moves tp0)"
    and v: "\<forall>j<length (tp_moves tp0). passes (validateMove (tp_moves tp0 ! j) j)"
  have "passes (validate_from 0 (tp_moves tp0) None)"
    unfolding validate_from_passes using v chained_continuity[OF c] by simp
  then show "passes (validate tp0 None)"
    by (simp add: validate_def)
qed

lemma late_gap_moves:
  "tp_moves example_late_gap =
     [ToolpathMove_linear (example_tool_state (dvec 0 0 0)) (example_tool_state (dvec 10 0 0)),
      ToolpathMove_linear (example_tool_state (dvec 10 0 0)) (example_tool_state (dvec 10 10 0)),
      ToolpathMove_linear (example_tool_state (dvec 10 11 0)) (example_tool_state (dvec 20 11 0))]"
  by (simp add: example_late_gap_def Toolpath_make_def)

lemma chained_moves:
  "tp_moves example_chained =
     [ToolpathMove_linear (example_tool_state (dvec 0 0 0)) (example_tool_state (dvec 10 0 0)),
      ToolpathMove_linear (example_tool_state (dvec 10 0 0)) (example_tool_state (dvec 10 10 0))]"
  by (simp add: example_chained_def Toolpath_make_def)

theorem continuity_validation_witness:
  "(1::nat) + 1 < length (tp_moves example_late_gap) \<and>
   d_gt (move_gap (tp_moves example_late_gap) 1) (Fin (1 / 10 ^ 6)) \<and>
   passes (validateMove (tp_moves example_late_gap ! 0) 0) \<and>
   passes (validateMove (tp_moves example_late_gap ! 1) 1) \<and>
   \<not> d_gt (move_gap (tp_moves example_late_gap) 0) (Fin (1 / 10 ^ 6)) \<and>
   limits_ok None (tp_moves example_late_gap ! 0) 0 \<and>
   \<not> passes (validate example_late_gap None) \<and>
   validate example_late_gap None = Inl (Discontinuity 1 (dvec 10 10 0) (dvec 10 11 0) (Fin 1)) \<and>
   chained (tp_moves example_chained) \<and>
   passes (validateContinuity (tp_moves example_chained ! 0) (tp_moves example_chained ! 1) 0) \<and>
   passes (validateMove (tp_moves example_chained ! 0) 0) \<and>
   passes (validateMove (tp_moves example_chained ! 1) 1) \<and>
   passes (validate example_chained None)"
proof -
  have len: "(1::nat) + 1 < length (tp_moves example_late_gap)"
    by (simp add: late_gap_moves)
  have gap1: "d_gt (move_gap (tp_moves example_late_gap) 1) (Fin (1 / 10 ^ 6))"
    by (simp add: late_gap_moves tp_simps)
  have gapv: "move_gap (tp_moves example_late_gap) 1 = Fin 1"
    by (simp add: late_gap_moves tp_simps)
  have gap0: "\<not> d_gt (move_gap (tp_moves example_late_gap) 0) (Fin (1 / 10 ^ 6))"
    by (simp add: late_gap_moves tp_simps)
  have v0: "passes (validateMove (tp_moves example_late_gap ! 0) 0)"
    by (simp add: late_gap_moves tp_simps)
  have v1: "passes (validateMove (tp_moves example_late_gap ! 1) 1)"
    by (simp add: late_gap_moves tp_simps)
  have l0: "limits_ok None (tp_moves example_late_gap ! 0) 0"
    by (simp add: limits_ok_def)
  have vs: "\<forall>j\<le>1. passes (validateMove (tp_moves example_late_gap ! j) j)"
    using v0 v1 by (auto simp: le_Suc_eq)
  have gs: "\<forall>j<1. \<not> d_gt (move_gap (tp_moves example_late_gap) j) (Fin (1 / 10 ^ 6)) \<and>
              limits_ok None (tp_moves example_late_gap ! j) j"
    using gap0 l0 by auto
  have ends: "getPosition (getEndState (tp_moves example_late_gap ! 1)) = dvec 10 10 0"
    "getPosition (getStartState (tp_moves example_late_gap ! (1 + 1))) = dvec 10 11 0"
    by (simp_all add: late_gap_moves example_tool_state_def ToolpathMove_linear_def
        ToolpathMove_make_def ToolpathState_make_def ToolpathState_make_rotary_def getEndState_def
        getStartState_def getPosition_def)
  have ch: "chained (tp_moves example_chained)"
    by (simp add: chained_moves tp_simps)
  have c0: "passes (validateMove (tp_moves example_chained ! 0) 0)"
    by (simp add: chained_moves tp_simps)
  have c1: "passes (validateMove (tp_moves example_chained ! 1) 1)"
    by (simp add: chained_moves tp_simps)
  have cs: "\<forall>j<length (tp_moves example_chained). passes (validateMove (tp_moves example_chained ! j) j)"
    using c0 c1 by (auto simp: chained_moves less_Suc_eq)
  have cl: "(0::nat) + 1 < length (tp_moves example_chained)"
    by (simp add: chained_moves)
  note inst = continuity_validation [where tp = example_late_gap and i = 1 and machine = None and ?tp0.0 = example_chained]
  from inst len gap1 have r1: "\<not> passes (validate example_late_gap None)" by blast
  from inst len gap1 vs gs
  have r2: "validate example_late_gap None =
        Inl (Discontinuity 1 (getPosition (getEndState (tp_moves example_late_gap ! 1)))
               (getPosition (getStartState (tp_moves example_late_gap ! (1 + 1))))
               (move_gap (tp_moves example_late_gap) 1))" by blast
  from inst ch cl have r3: "passes (validateContinuity (tp_moves example_chained ! 0)
        (tp_moves example_chained ! (0 + 1)) 0)" by blast
  from inst ch cs have r4: "passes (validate example_chained None)" by blast
  from r2 have r2': "validate example_late_gap None =
      Inl (Discontinuity 1 (dvec 10 10 0) (dvec 10 11 0) (Fin 1))"
    unfolding ends gapv .
  from r3 have r3': "passes (validateContinuity (tp_moves example_chained ! 0)
        (tp_moves example_chained ! 1) 0)" by simp
  show ?thesis
    using len gap1 v0 v1 gap0 l0 r1 r2' ch r3' c0 c1 r4 by blast
qed

lemma validateArc_arc:
  "validateArc (ToolpathMove_arc t s e c) i =
     (if d_gt (d_abs (d_sub (arc_radius s c) (arc_radius e c))) (Fin (1 / 10 ^ 6))
        then Inl (ArcInconsistentRadius i (arc_radius s c) (arc_radius e c)
                    (d_abs (d_sub (arc_radius s c) (arc_radius e c))))
      else if d_lt (arc_radius s c) (Fin (1 / 10 ^ 9)) then Inl (ArcZeroRadius i)
      else Inr ())"
  by (simp add: validateArc_def ToolpathMove_arc_def ToolpathMove_make_def arc_radius_def Let_def
      getStartState_def getEndState_def)

lemma d_le_not_lt: "d_le a b \<Longrightarrow> \<not> d_lt b a"
  by (cases a; cases b) simp_all

lemma validateMove_arc_passes:
  "isArcMove t \<Longrightarrow> passes (validateMove (ToolpathMove_arc t s e c) i) \<Longrightarrow>
     passes (validateArc (ToolpathMove_arc t s e c) i)"
  by (auto simp: validateMove_def getMoveType_def ToolpathMove_arc_def ToolpathMove_make_def
      split: if_splits)

text \<open>
  Claim C5, as amended. The radii are the start-to-center and end-to-center distances as
  the validator computes them in double arithmetic. An arc move whose computed radii differ
  by more than \<^verbatim>\<open>1e-6\<close> fails validation, and so does one whose computed start radius is
  below \<^verbatim>\<open>1e-9\<close>. An arc move passes when its start and end states are finite in every
  component, its computed radii agree within \<^verbatim>\<open>1e-6\<close> (equal finite radii in
  particular), its start radius is at least \<^verbatim>\<open>1e-9\<close>, its end state has a feed rate
  above 0 and its start and end positions do not coincide (squared distance at least
  \<^verbatim>\<open>1e-12\<close>). Nothing is said of an arc whose computed radii are both infinite, where
  their difference is NaN.
\<close>

theorem arc_validation:
  "(isArcMove t1 \<and>
    d_gt (d_abs (d_sub (arc_radius s1 c1) (arc_radius e1 c1))) (Fin (1 / 10 ^ 6)) \<longrightarrow>
      \<not> passes (validateMove (ToolpathMove_arc t1 s1 e1 c1) i1)) \<and>
   (isArcMove t2 \<and> d_lt (arc_radius s2 c2) (Fin (1 / 10 ^ 9)) \<longrightarrow>
      \<not> passes (validateMove (ToolpathMove_arc t2 s2 e2 c2) i2)) \<and>
   (isArcMove t3 \<and> ToolpathState_isValid s3 \<and> ToolpathState_isValid e3 \<and>
    d_le (d_abs (d_sub (arc_radius s3 c3) (arc_radius e3 c3))) (Fin (1 / 10 ^ 6)) \<and>
    d_ge (arc_radius s3 c3) (Fin (1 / 10 ^ 9)) \<and> d_gt (ts_feedRate e3) (Fin 0) \<and>
    d_ge (DVec3_lengthSquared (DVec3_sub (getPosition e3) (getPosition s3)))
         (Fin (1 / 10 ^ 12)) \<longrightarrow>
      validateMove (ToolpathMove_arc t3 s3 e3 c3) i3 = Inr ())"
proof (intro conjI impI)
  assume "isArcMove t1 \<and>
    d_gt (d_abs (d_sub (arc_radius s1 c1) (arc_radius e1 c1))) (Fin (1 / 10 ^ 6))"
  then show "\<not> passes (validateMove (ToolpathMove_arc t1 s1 e1 c1) i1)"
    using validateMove_arc_passes[of t1 s1 e1 c1 i1] by (auto simp: validateArc_arc split: if_splits)
next
  assume "isArcMove t2 \<and> d_lt (arc_radius s2 c2) (Fin (1 / 10 ^ 9))"
  then show "\<not> passes (validateMove (ToolpathMove_arc t2 s2 e2 c2) i2)"
    using validateMove_arc_passes[of t2 s2 e2 c2 i2] by (auto simp: validateArc_arc split: if_splits)
next
  assume a: "isArcMove t3 \<and> ToolpathState_isValid s3 \<and> ToolpathState_isValid e3 \<and>
    d_le (d_abs (d_sub (arc_radius s3 c3) (arc_radius e3 c3))) (Fin (1 / 10 ^ 6)) \<and>
    d_ge (arc_radius s3 c3) (Fin (1 / 10 ^ 9)) \<and> d_gt (ts_feedRate e3) (Fin 0) \<and>
    d_ge (DVec3_lengthSquared (DVec3_sub (getPosition e3) (getPosition s3)))
         (Fin (1 / 10 ^ 12))"
  then have r: "\<not> d_gt (d_abs (d_sub (arc_radius s3 c3) (arc_radius e3 c3))) (Fin (1 / 10 ^ 6))"
    "\<not> d_lt (arc_radius s3 c3) (Fin (1 / 10 ^ 9))"
    "\<not> d_lt (DVec3_lengthSquared (DVec3_sub (getPosition e3) (getPosition s3)))
            (Fin (1 / 10 ^ 12))"
    unfolding d_gt_def d_ge_def by (blast dest: d_le_not_lt)+
  then have arc: "validateArc (ToolpathMove_arc t3 s3 e3 c3) i3 = Inr ()"
    by (simp add: validateArc_arc)
  from a have nr: "t3 \<noteq> Rapid" by (auto simp: isArcMove_def)
  show "validateMove (ToolpathMove_arc t3 s3 e3 c3) i3 = Inr ()"
    unfolding validateMove_def arc
    using a nr r(3)
    by (simp add: ToolpathMove_isValid_def hasFeedRate_def
        isZeroLength_def getMoveType_def getEndState_def ToolpathMove_arc_def ToolpathMove_make_def)
qed

lemmas arc_simps = arc_radius_def

text \<open>
  The claim as stated lets every arc with equal radii and a positive feed rate pass, and
  makes every arc whose radii differ by more than \<^verbatim>\<open>1e-6\<close> fail. A full circle of radius
  1 has equal radii and a feed rate of 100, and is rejected as a zero-length move. A quarter
  circle of radius 1 with a feed rate of 100 whose end state carries an infinite spindle
  speed is rejected as an invalid move. An arc about the origin from \<^verbatim>\<open>(1e200, 0, 0)\<close> to
  \<^verbatim>\<open>(2e200, 0, 0)\<close> has radii that differ by \<^verbatim>\<open>1e200\<close>; both computed radii overflow to
  infinity, their difference is NaN, no comparison with NaN holds, and the arc passes.
\<close>

lemma exact_distance_x: "exact_distance (dvec a 0 0) (dvec 0 0 0) = Some \<bar>a\<bar>"
  by (simp add: dvec_def)

theorem arc_full_circle_counterexample:
  "isArcMove (getMoveType example_full_circle) \<and>
   arc_radius (getStartState example_full_circle) (dvec 0 0 0) = Fin 1 \<and>
   arc_radius (getEndState example_full_circle) (dvec 0 0 0) = Fin 1 \<and>
   d_gt (ts_feedRate (getEndState example_full_circle)) (Fin 0) \<and>
   validateMove example_full_circle 0 = Inl (MoveZeroLength 0) \<and>
   validate (appendMove (Toolpath_make ''circle'' ''mill'') example_full_circle) None =
     Inl (MoveZeroLength 0) \<and>
   isArcMove (getMoveType example_infinite_rpm_arc) \<and>
   arc_radius (getStartState example_infinite_rpm_arc) (dvec 0 0 0) = Fin 1 \<and>
   arc_radius (getEndState example_infinite_rpm_arc) (dvec 0 0 0) = Fin 1 \<and>
   ts_feedRate (getEndState example_infinite_rpm_arc) = Fin 100 \<and>
   validateMove example_infinite_rpm_arc 0 = Inl (MoveInvalid 0) \<and>
   isArcMove (getMoveType example_huge_arc) \<and>
   mv_arcCenter example_huge_arc = Some (dvec 0 0 0) \<and>
   exact_distance (getPosition (getStartState example_huge_arc)) (dvec 0 0 0) = Some (10 ^ 200) \<and>
   exact_distance (getPosition (getEndState example_huge_arc)) (dvec 0 0 0) = Some (2 * 10 ^ 200) \<and>
   arc_radius (getStartState example_huge_arc) (dvec 0 0 0) = PosInf \<and>
   arc_radius (getEndState example_huge_arc) (dvec 0 0 0) = PosInf \<and>
   validateMove example_huge_arc 0 = Inr ()"
proof -
  have circle: "isArcMove (getMoveType example_full_circle)"
    "arc_radius (getStartState example_full_circle) (dvec 0 0 0) = Fin 1"
    "arc_radius (getEndState example_full_circle) (dvec 0 0 0) = Fin 1"
    "d_gt (ts_feedRate (getEndState example_full_circle)) (Fin 0)"
    "validateMove example_full_circle 0 = Inl (MoveZeroLength 0)"
    "validate (appendMove (Toolpath_make ''circle'' ''mill'') example_full_circle) None =
       Inl (MoveZeroLength 0)"
    by (simp_all add: example_full_circle_def ToolpathMove_arc_def tp_simps arc_simps)
  have rpm: "isArcMove (getMoveType example_infinite_rpm_arc)"
    "arc_radius (getStartState example_infinite_rpm_arc) (dvec 0 0 0) = Fin 1"
    "arc_radius (getEndState example_infinite_rpm_arc) (dvec 0 0 0) = Fin 1"
    "ts_feedRate (getEndState example_infinite_rpm_arc) = Fin 100"
    "validateMove example_infinite_rpm_arc 0 = Inl (MoveInvalid 0)"
    by (simp_all add: example_infinite_rpm_arc_def ToolpathMove_arc_def tp_simps arc_simps)
  have pos: "getPosition (getStartState example_huge_arc) = dvec (10 ^ 200) 0 0"
    "getPosition (getEndState example_huge_arc) = dvec (2 * 10 ^ 200) 0 0"
    by (simp_all add: example_huge_arc_def ToolpathMove_arc_def ToolpathMove_make_def
        getStartState_def getEndState_def getPosition_def example_tool_state_def
        ToolpathState_make_def ToolpathState_make_rotary_def)
  have exact:
    "exact_distance (getPosition (getStartState example_huge_arc)) (dvec 0 0 0) = Some (10 ^ 200)"
    "exact_distance (getPosition (getEndState example_huge_arc)) (dvec 0 0 0) = Some (2 * 10 ^ 200)"
    unfolding pos exact_distance_x by simp_all
  have huge: "isArcMove (getMoveType example_huge_arc)"
    "mv_arcCenter example_huge_arc = Some (dvec 0 0 0)"
    "arc_radius (getStartState example_huge_arc) (dvec 0 0 0) = PosInf"
    "arc_radius (getEndState example_huge_arc) (dvec 0 0 0) = PosInf"
    "validateMove example_huge_arc 0 = Inr ()"
    by (simp_all add: example_huge_arc_def ToolpathMove_arc_def validateArc_def tp_simps arc_simps
        d_round_Fin d_round_PosInf Let_def)
  from circle rpm exact huge show ?thesis by blast
qed

theorem arc_validation_witness:
  "isArcMove ArcCW \<and>
   d_gt (d_abs (d_sub (arc_radius (example_tool_state (dvec 1 0 0)) (dvec 0 0 0))
                      (arc_radius (example_tool_state (dvec 0 2 0)) (dvec 0 0 0))))
        (Fin (1 / 10 ^ 6)) \<and>
   \<not> passes (validateMove (ToolpathMove_arc ArcCW (example_tool_state (dvec 1 0 0))
                  (example_tool_state (dvec 0 2 0)) (dvec 0 0 0)) 0) \<and>
   isArcMove ArcCCW \<and>
   d_lt (arc_radius (example_tool_state (dvec 0 0 0)) (dvec 0 0 0)) (Fin (1 / 10 ^ 9)) \<and>
   \<not> passes (validateMove (ToolpathMove_arc ArcCCW (example_tool_state (dvec 0 0 0))
                  (example_tool_state (dvec 1 0 0)) (dvec 0 0 0)) 0) \<and>
   ToolpathState_isValid (example_tool_state (dvec 1 0 0)) \<and>
   ToolpathState_isValid (example_tool_state (dvec 0 1 0)) \<and>
   d_le (d_abs (d_sub (arc_radius (example_tool_state (dvec 1 0 0)) (dvec 0 0 0))
                      (arc_radius (example_tool_state (dvec 0 1 0)) (dvec 0 0 0))))
        (Fin (1 / 10 ^ 6)) \<and>
   d_ge (arc_radius (example_tool_state (dvec 1 0 0)) (dvec 0 0 0)) (Fin (1 / 10 ^ 9)) \<and>
   d_gt (ts_feedRate (example_tool_state (dvec 0 1 0))) (Fin 0) \<and>
   d_ge (DVec3_lengthSquared (DVec3_sub (getPosition (example_tool_state (dvec 0 1 0)))
      (getPosition (example_tool_state (dvec 1 0 0))))) (Fin (1 / 10 ^ 12)) \<and>
   validateMove (ToolpathMove_arc ArcCW (example_tool_state (dvec 1 0 0))
                  (example_tool_state (dvec 0 1 0)) (dvec 0 0 0)) 0 = Inr ()"
proof -
  have a: "isArcMove ArcCW" "isArcMove ArcCCW" by (simp_all add: isArcMove_def)
  have b: "d_gt (d_abs (d_sub (arc_radius (example_tool_state (dvec 1 0 0)) (dvec 0 0 0))
                      (arc_radius (example_tool_state (dvec 0 2 0)) (dvec 0 0 0))))
        (Fin (1 / 10 ^ 6))"
    by (simp add: arc_simps tp_simps)
  have c: "d_lt (arc_radius (example_tool_state (dvec 0 0 0)) (dvec 0 0 0)) (Fin (1 / 10 ^ 9))"
    by (simp add: arc_simps tp_simps)
  have d: "ToolpathState_isValid (example_tool_state (dvec 1 0 0))"
    "ToolpathState_isValid (example_tool_state (dvec 0 1 0))"
    "d_le (d_abs (d_sub (arc_radius (example_tool_state (dvec 1 0 0)) (dvec 0 0 0))
                      (arc_radius (example_tool_state (dvec 0 1 0)) (dvec 0 0 0))))
        (Fin (1 / 10 ^ 6))"
    "d_ge (arc_radius (example_tool_state (dvec 1 0 0)) (dvec 0 0 0)) (Fin (1 / 10 ^ 9))"
    "d_gt (ts_feedRate (example_tool_state (dvec 0 1 0))) (Fin 0)"
    "d_ge (DVec3_lengthSquared (DVec3_sub (getPosition (example_tool_state (dvec 0 1 0)))
      (getPosition (example_tool_state (dvec 1 0 0))))) (Fin (1 / 10 ^ 12))"
    by (simp_all add: arc_simps tp_simps)
  from arc_validation [where ?t1.0 = ArcCW and ?s1.0 = "example_tool_state (dvec 1 0 0)"
      and ?e1.0 = "example_tool_state (dvec 0 2 0)" and ?c1.0 = "dvec 0 0 0" and ?i1.0 = 0
      and ?t2.0 = ArcCCW and ?s2.0 = "example_tool_state (dvec 0 0 0)"
      and ?e2.0 = "example_tool_state (dvec 1 0 0)" and ?c2.0 = "dvec 0 0 0" and ?i2.0 = 0
      and ?t3.0 = ArcCW and ?s3.0 = "example_tool_state (dvec 1 0 0)"
      and ?e3.0 = "example_tool_state (dvec 0 1 0)" and ?c3.0 = "dvec 0 0 0" and ?i3.0 = 0]
    a b c d
  show ?thesis by blast
qed

subsection \<open>Cartesian kinematics\<close>

lemma normalized_identity [simp]: "Quaternion_normalized Quaternion_identity = Quaternion_identity"
  by (simp add: Quaternion_normalized_def Quaternion_identity_def Quaternion_magnitude_def)

text \<open>
  Claim C6. For the Cartesian 3-axis kinematics and every axis array \<open>p\<close> within the limits
  \<^verbatim>\<open>getAxisLimits\<close> reports (the travel limits for X, Y, Z and \<open>[0, 0]\<close> for the unused
  A, B, C): forward kinematics of \<open>p\<close> is valid; inverse kinematics of its tool pose has a
  first solution, which is valid; forward kinematics of that solution is valid, returns
  exactly \<open>p\<close> as axis positions (so each axis is within \<^verbatim>\<open>1e-9\<close>) and the same tool pose.
\<close>

theorem cartesian_round_trip:
  assumes "withinAxisLimits k p"
  shows "(let fk1 = forwardKinematics k p in
          fk_valid fk1 \<and>
          (case inverseKinematics k (fk_toolPose fk1) of
             [] \<Rightarrow> False
           | s # _ \<Rightarrow>
               ik_valid s \<and>
               (let fk2 = forwardKinematics k (ik_axisPositions s) in
                fk_valid fk2 \<and> fk_axisPositions fk2 = p \<and>
                list_all (\<lambda>a. \<bar>fk_axisPositions fk2 a - p a\<bar> \<le> 1 / 10 ^ 9)
                  [AxisX, AxisY, AxisZ, AxisA, AxisB, AxisC] \<and>
                fk_toolPose fk2 = fk_toolPose fk1)))"
proof -
  from assms have lim:
    "fst (xLimits k) \<le> p AxisX" "p AxisX \<le> snd (xLimits k)"
    "fst (yLimits k) \<le> p AxisY" "p AxisY \<le> snd (yLimits k)"
    "fst (zLimits k) \<le> p AxisZ" "p AxisZ \<le> snd (zLimits k)"
    "p AxisA = 0" "p AxisB = 0" "p AxisC = 0"
    by (simp_all add: withinAxisLimits_def getAxisLimits_def)
  have eq: "(\<lambda>_. 0)(AxisX := p AxisX, AxisY := p AxisY, AxisZ := p AxisZ, AxisA := 0, AxisB := 0, AxisC := 0) = p"
  proof
    fix a show "((\<lambda>_. 0)(AxisX := p AxisX, AxisY := p AxisY, AxisZ := p AxisZ, AxisA := 0, AxisB := 0, AxisC := 0)) a = p a"
      using lim by (cases a) simp_all
  qed
  have fk: "forwardKinematics k p =
      \<lparr>fk_toolPose = Transform_make (Vec3 (p AxisX) (p AxisY) (p AxisZ)) Quaternion_identity,
       fk_axisPositions = p, fk_valid = True\<rparr>"
    using lim by (simp add: forwardKinematics_def Let_def not_less [symmetric])
  show ?thesis
    using lim by (simp add: fk inverseKinematics_def Let_def Transform_make_def eq not_less [symmetric])
qed

theorem cartesian_round_trip_witness:
  "withinAxisLimits Cartesian3Axis_default example_axes \<and>
   (let fk1 = forwardKinematics Cartesian3Axis_default example_axes in
          fk_valid fk1 \<and>
          (case inverseKinematics Cartesian3Axis_default (fk_toolPose fk1) of
             [] \<Rightarrow> False
           | s # _ \<Rightarrow>
               ik_valid s \<and>
               (let fk2 = forwardKinematics Cartesian3Axis_default (ik_axisPositions s) in
                fk_valid fk2 \<and> fk_axisPositions fk2 = example_axes \<and>
                list_all (\<lambda>a. \<bar>fk_axisPositions fk2 a - example_axes a\<bar> \<le> 1 / 10 ^ 9)
                  [AxisX, AxisY, AxisZ, AxisA, AxisB, AxisC] \<and>
                fk_toolPose fk2 = fk_toolPose fk1)))"
proof -
  have h: "withinAxisLimits Cartesian3Axis_default example_axes"
    by (simp add: withinAxisLimits_def getAxisLimits_def Cartesian3Axis_default_def example_axes_def)
  from cartesian_round_trip [OF h] h show ?thesis by blast
qed

subsection \<open>Spherical interpolation\<close>

lemma normalized_unit: "Quaternion_magnitude q = 1 \<Longrightarrow> Quaternion_normalized q = q"
  by (simp add: Quaternion_normalized_def)

text \<open>
  Two facts of real analysis. With \<open>c = 1 - d\<close> for the dot product \<open>d\<close> of the end points,
  the cosine of the angle from the start to the normalized linear interpolant at \<open>t\<close> is
  \<open>(1 - c t) / sqrt ((1 - c t)\<^sup>2 + c (2 - c) t\<^sup>2)\<close>, which does not increase with \<open>t\<close>. The
  weights of the spherical branch give a unit quaternion at angle \<open>t \<theta>\<close> from the start.
\<close>

lemma lerp_cos_antitone:
  fixes c s t :: real
  assumes c: "0 \<le> c" "c < 1" and st: "0 \<le> s" "s \<le> t" "t \<le> 1"
  shows "(1 - c * t) / sqrt ((1 - c * t)\<^sup>2 + c * (2 - c) * t\<^sup>2)
       \<le> (1 - c * s) / sqrt ((1 - c * s)\<^sup>2 + c * (2 - c) * s\<^sup>2)"
proof -
  define A where "A = 1 - c * s"
  define B where "B = 1 - c * t"
  define k where "k = c * (2 - c)"
  have ct: "c * t \<le> c * 1" using c st by (intro mult_left_mono) auto
  have cs: "c * s \<le> c * 1" using c st by (intro mult_left_mono) auto
  have A: "0 < A" using c cs by (simp add: A_def)
  have B: "0 < B" using c ct by (simp add: B_def)
  have k: "0 \<le> k" using c by (simp add: k_def)
  have NS: "0 < A\<^sup>2 + k * s\<^sup>2" using A k by (simp add: add_pos_nonneg)
  have NT: "0 < B\<^sup>2 + k * t\<^sup>2" using B k by (simp add: add_pos_nonneg)
  have "A * t - B * s = t - s" by (simp add: A_def B_def algebra_simps)
  then have le: "B * s \<le> A * t" using st by linarith
  have "0 \<le> B * s" using B st by simp
  then have "(B * s)\<^sup>2 \<le> (A * t)\<^sup>2" using le by (intro power_mono) auto
  then have "k * (B * s)\<^sup>2 \<le> k * (A * t)\<^sup>2" using k by (intro mult_left_mono) auto
  then have "B\<^sup>2 * (A\<^sup>2 + k * s\<^sup>2) \<le> A\<^sup>2 * (B\<^sup>2 + k * t\<^sup>2)"
    by (simp add: algebra_simps power_mult_distrib)
  then have "sqrt (B\<^sup>2 * (A\<^sup>2 + k * s\<^sup>2)) \<le> sqrt (A\<^sup>2 * (B\<^sup>2 + k * t\<^sup>2))"
    by simp
  then have "B * sqrt (A\<^sup>2 + k * s\<^sup>2) \<le> A * sqrt (B\<^sup>2 + k * t\<^sup>2)"
    using A B by (simp add: real_sqrt_mult)
  then have "B / sqrt (B\<^sup>2 + k * t\<^sup>2) \<le> A / sqrt (A\<^sup>2 + k * s\<^sup>2)"
    using NS NT by (simp add: field_simps)
  then show ?thesis by (simp add: A_def B_def k_def)
qed

lemma lerp_cos_bounds:
  fixes c t :: real
  assumes c: "0 \<le> c" "c < 1" and t: "0 \<le> t" "t \<le> 1"
  shows "0 < (1 - c * t) / sqrt ((1 - c * t)\<^sup>2 + c * (2 - c) * t\<^sup>2)"
    and "(1 - c * t) / sqrt ((1 - c * t)\<^sup>2 + c * (2 - c) * t\<^sup>2) \<le> 1"
    and "0 < (1 - c * t)\<^sup>2 + c * (2 - c) * t\<^sup>2"
proof -
  define B where "B = 1 - c * t"
  define k where "k = c * (2 - c)"
  have ct: "c * t \<le> c * 1" using c t by (intro mult_left_mono) auto
  have B: "0 < B" using c ct by (simp add: B_def)
  have k: "0 \<le> k" using c by (simp add: k_def)
  have kt: "0 \<le> k * t\<^sup>2" using k by simp
  have NT: "0 < B\<^sup>2 + k * t\<^sup>2" using B kt by (simp add: add_pos_nonneg)
  have "B\<^sup>2 \<le> B\<^sup>2 + k * t\<^sup>2" using kt by simp
  then have "sqrt (B\<^sup>2) \<le> sqrt (B\<^sup>2 + k * t\<^sup>2)"
    by (rule real_sqrt_le_mono)
  then have "B \<le> sqrt (B\<^sup>2 + k * t\<^sup>2)" using B by simp
  then have le1: "B / sqrt (B\<^sup>2 + k * t\<^sup>2) \<le> 1" using NT by (simp add: field_simps)
  have pos: "0 < B / sqrt (B\<^sup>2 + k * t\<^sup>2)" using B NT by simp
  show "0 < (1 - c * t) / sqrt ((1 - c * t)\<^sup>2 + c * (2 - c) * t\<^sup>2)"
    using pos by (simp add: B_def k_def)
  show "(1 - c * t) / sqrt ((1 - c * t)\<^sup>2 + c * (2 - c) * t\<^sup>2) \<le> 1"
    using le1 by (simp add: B_def k_def)
  show "0 < (1 - c * t)\<^sup>2 + c * (2 - c) * t\<^sup>2" using NT by (simp add: B_def k_def)
qed

lemma slerp_weights:
  fixes th t :: real
  assumes "sin th \<noteq> 0"
  defines "a \<equiv> sin ((1 - t) * th) / sin th" and "b \<equiv> sin (t * th) / sin th"
  shows "a + b * cos th = cos (t * th)" and "a\<^sup>2 + b\<^sup>2 + 2 * a * b * cos th = 1"
proof -
  define S where "S = sin th"
  define C where "C = cos th"
  define sB where "sB = sin (t * th)"
  define cB where "cB = cos (t * th)"
  have S: "S \<noteq> 0" using assms by (simp add: S_def)
  have u1: "S\<^sup>2 + C\<^sup>2 = 1" by (simp add: S_def C_def)
  have u2: "sB\<^sup>2 + cB\<^sup>2 = 1" by (simp add: sB_def cB_def)
  have "(1 - t) * th = th - t * th" by (simp add: algebra_simps)
  then have sA: "sin ((1 - t) * th) = S * cB - C * sB"
    by (simp add: sin_diff S_def C_def sB_def cB_def)
  have a: "a = (S * cB - C * sB) / S" by (simp add: a_def sA S_def)
  have b: "b = sB / S" by (simp add: b_def sB_def S_def)
  have "a + b * C = cB" using S by (simp add: a b field_simps)
  then show "a + b * cos th = cos (t * th)" by (simp add: C_def cB_def)
  have num: "(S * cB - C * sB)\<^sup>2 + sB\<^sup>2 + 2 * (S * cB - C * sB) * sB * C = S\<^sup>2"
  proof -
    have "(S * cB - C * sB)\<^sup>2 + sB\<^sup>2 + 2 * (S * cB - C * sB) * sB * C
          = S\<^sup>2 * cB\<^sup>2 + sB\<^sup>2 * (1 - C\<^sup>2)"
      by (simp add: power2_eq_square algebra_simps)
    also have "\<dots> = S\<^sup>2 * cB\<^sup>2 + sB\<^sup>2 * S\<^sup>2"
    proof -
      have "1 - C\<^sup>2 = S\<^sup>2" using u1 by linarith
      then show ?thesis by simp
    qed
    also have "\<dots> = S\<^sup>2 * (sB\<^sup>2 + cB\<^sup>2)" by (simp add: algebra_simps)
    also have "\<dots> = S\<^sup>2" using u2 by simp
    finally show ?thesis .
  qed
  have "a\<^sup>2 + b\<^sup>2 + 2 * a * b * C =
        ((S * cB - C * sB)\<^sup>2 + sB\<^sup>2 + 2 * (S * cB - C * sB) * sB * C) / S\<^sup>2"
    using S by (simp add: a b power2_eq_square field_simps)
  also have "\<dots> = 1" unfolding num using S by simp
  finally show "a\<^sup>2 + b\<^sup>2 + 2 * a * b * cos th = 1" by (simp add: C_def)
qed

lemma slerp_blend:
  "slerp q1 q2 t =
     (if \<bar>Quaternion_dot q1 q2\<bar> > 0.9995 then
        Quaternion_normalized (blend (1 - t) t q1 (slerp_target q1 q2))
      else
        Quaternion_normalized
          (blend (sin ((1 - t) * arccos \<bar>Quaternion_dot q1 q2\<bar>) / sin (arccos \<bar>Quaternion_dot q1 q2\<bar>))
                 (sin (t * arccos \<bar>Quaternion_dot q1 q2\<bar>) / sin (arccos \<bar>Quaternion_dot q1 q2\<bar>))
                 q1 (slerp_target q1 q2)))"
proof -
  have d: "(if Quaternion_dot q1 q2 < 0 then - Quaternion_dot q1 q2 else Quaternion_dot q1 q2)
           = \<bar>Quaternion_dot q1 q2\<bar>" by simp
  have l: "\<And>u v. u + (v - u) * t = u * (1 - t) + v * t" by (simp add: algebra_simps)
  show ?thesis
    unfolding slerp_def Let_def Quaternion_dot_def [symmetric] d
    by (simp add: blend_def slerp_target_def Quaternion_negated_def l)
qed

lemma magnitude_one_dot:
  "Quaternion_magnitude q = 1 \<longleftrightarrow> Quaternion_dot q q = 1"
  by (simp add: Quaternion_magnitude_def Quaternion_dot_def)

lemma target_unit: "Quaternion_magnitude q2 = 1 \<Longrightarrow> Quaternion_magnitude (slerp_target q1 q2) = 1"
  by (simp add: slerp_target_def Quaternion_negated_def Quaternion_magnitude_def)

lemma target_dot: "Quaternion_dot q1 (slerp_target q1 q2) = \<bar>Quaternion_dot q1 q2\<bar>"
  by (simp add: slerp_target_def Quaternion_negated_def Quaternion_dot_def)

lemma dot_le_one:
  assumes "Quaternion_magnitude q1 = 1" "Quaternion_magnitude q2 = 1"
  shows "\<bar>Quaternion_dot q1 q2\<bar> \<le> 1"
proof -
  obtain a b c d where q1: "q1 = Quaternion a b c d" by (cases q1)
  obtain e f g h where q2: "q2 = Quaternion e f g h" by (cases q2)
  from assms have u: "a * a + b * b + c * c + d * d = 1" "e * e + f * f + g * g + h * h = 1"
    by (simp_all add: q1 q2 Quaternion_magnitude_def)
  have "0 \<le> (a - e)\<^sup>2 + (b - f)\<^sup>2 + (c - g)\<^sup>2 + (d - h)\<^sup>2" by simp
  also have "\<dots> = (a * a + b * b + c * c + d * d) + (e * e + f * f + g * g + h * h)
                    - 2 * (a * e + b * f + c * g + d * h)"
    by (simp add: power2_eq_square algebra_simps)
  finally have 1: "a * e + b * f + c * g + d * h \<le> 1" using u by simp
  have "0 \<le> (a + e)\<^sup>2 + (b + f)\<^sup>2 + (c + g)\<^sup>2 + (d + h)\<^sup>2" by simp
  also have "\<dots> = (a * a + b * b + c * c + d * d) + (e * e + f * f + g * g + h * h)
                    + 2 * (a * e + b * f + c * g + d * h)"
    by (simp add: power2_eq_square algebra_simps)
  finally have 2: "- 1 \<le> a * e + b * f + c * g + d * h" using u by simp
  from 1 2 show ?thesis by (simp add: q1 q2 Quaternion_dot_def abs_le_iff)
qed

lemma blend_dot:
  assumes "Quaternion_magnitude q1 = 1"
  shows "Quaternion_dot q1 (blend a b q1 q2) = a + b * Quaternion_dot q1 q2"
proof -
  obtain w x y z where q1: "q1 = Quaternion w x y z" by (cases q1)
  from assms have u: "w * w + x * x + y * y + z * z = 1"
    by (simp add: q1 Quaternion_magnitude_def)
  have "Quaternion_dot q1 (blend a b q1 q2) =
        a * (w * w + x * x + y * y + z * z) + b * Quaternion_dot q1 q2"
    by (simp add: q1 blend_def Quaternion_dot_def algebra_simps)
  then show ?thesis by (simp add: u)
qed

lemma blend_norm:
  assumes "Quaternion_magnitude q1 = 1" "Quaternion_magnitude q2 = 1"
  shows "Quaternion_dot (blend a b q1 q2) (blend a b q1 q2) =
           a\<^sup>2 + b\<^sup>2 + 2 * a * b * Quaternion_dot q1 q2"
proof -
  obtain w x y z where q1: "q1 = Quaternion w x y z" by (cases q1)
  obtain e f g h where q2: "q2 = Quaternion e f g h" by (cases q2)
  from assms have u: "w * w + x * x + y * y + z * z = 1" "e * e + f * f + g * g + h * h = 1"
    by (simp_all add: q1 q2 Quaternion_magnitude_def)
  have "Quaternion_dot (blend a b q1 q2) (blend a b q1 q2) =
        a\<^sup>2 * (w * w + x * x + y * y + z * z) + b\<^sup>2 * (e * e + f * f + g * g + h * h)
        + 2 * a * b * (w * e + x * f + y * g + z * h)"
    by (simp add: q1 q2 blend_def Quaternion_dot_def power2_eq_square algebra_simps)
  then show ?thesis by (simp add: u q1 q2 Quaternion_dot_def)
qed

lemma magnitude_sqrt_dot: "Quaternion_magnitude q = sqrt (Quaternion_dot q q)"
  by (simp add: Quaternion_magnitude_def Quaternion_dot_def)

lemma dot_normalized:
  assumes "Quaternion_dot q q > 0"
  shows "Quaternion_dot p (Quaternion_normalized q) = Quaternion_dot p q / sqrt (Quaternion_dot q q)"
proof -
  have m: "Quaternion_magnitude q > 0" using assms by (simp add: magnitude_sqrt_dot)
  show ?thesis
    using m unfolding Quaternion_normalized_def Let_def
    by (simp add: Quaternion_dot_def Quaternion_magnitude_def add_divide_distrib)
qed

lemma blend_1_0 [simp]: "blend 1 0 q1 q2 = q1"
  by (simp add: blend_def)

lemma blend_0_1 [simp]: "blend 0 1 q1 q2 = q2"
  by (simp add: blend_def)

lemma slerp_0:
  assumes "Quaternion_magnitude q1 = 1" "Quaternion_magnitude q2 = 1"
  shows "slerp q1 q2 0 = q1"
proof (cases "\<bar>Quaternion_dot q1 q2\<bar> > 0.9995")
  case True
  then show ?thesis by (simp add: slerp_blend normalized_unit assms)
next
  case False
  have "\<bar>Quaternion_dot q1 q2\<bar> < 1" using False by simp
  then have "sin (arccos \<bar>Quaternion_dot q1 q2\<bar>) \<noteq> 0"
    by (intro sin_arccos_nonzero) auto
  with False show ?thesis by (simp add: slerp_blend normalized_unit assms)
qed

lemma slerp_1:
  assumes "Quaternion_magnitude q1 = 1" "Quaternion_magnitude q2 = 1"
  shows "slerp q1 q2 1 = slerp_target q1 q2"
proof (cases "\<bar>Quaternion_dot q1 q2\<bar> > 0.9995")
  case True
  then show ?thesis by (simp add: slerp_blend normalized_unit target_unit assms)
next
  case False
  have "\<bar>Quaternion_dot q1 q2\<bar> < 1" using False by simp
  then have "sin (arccos \<bar>Quaternion_dot q1 q2\<bar>) \<noteq> 0"
    by (intro sin_arccos_nonzero) auto
  with False show ?thesis by (simp add: slerp_blend normalized_unit target_unit assms)
qed

lemma slerp_dot_near:
  assumes u: "Quaternion_magnitude q1 = 1" "Quaternion_magnitude q2 = 1"
    and near: "\<bar>Quaternion_dot q1 q2\<bar> > 0.9995"
    and t: "0 \<le> t" "t \<le> 1"
  defines "c \<equiv> 1 - \<bar>Quaternion_dot q1 q2\<bar>"
  shows "Quaternion_dot q1 (slerp q1 q2 t) =
           (1 - c * t) / sqrt ((1 - c * t)\<^sup>2 + c * (2 - c) * t\<^sup>2)"
proof -
  let ?q = "slerp_target q1 q2"
  let ?b = "blend (1 - t) t q1 ?q"
  have c: "0 \<le> c" "c < 1" using near dot_le_one [OF u] by (simp_all add: c_def)
  have d: "Quaternion_dot q1 ?q = 1 - c" by (simp add: target_dot c_def)
  have n: "Quaternion_dot ?b ?b = (1 - c * t)\<^sup>2 + c * (2 - c) * t\<^sup>2"
    unfolding blend_norm [OF u(1) target_unit [OF u(2)]] d
    by (simp add: power2_eq_square algebra_simps)
  have p: "Quaternion_dot q1 ?b = 1 - c * t"
    unfolding blend_dot [OF u(1)] d by (simp add: algebra_simps)
  have pos: "0 < Quaternion_dot ?b ?b"
    unfolding n using lerp_cos_bounds(3) [OF c t] .
  have "slerp q1 q2 t = Quaternion_normalized ?b" using near by (simp add: slerp_blend)
  then show ?thesis by (simp add: dot_normalized [OF pos] n p)
qed

lemma slerp_dot_far:
  assumes u: "Quaternion_magnitude q1 = 1" "Quaternion_magnitude q2 = 1"
    and far: "\<not> \<bar>Quaternion_dot q1 q2\<bar> > 0.9995"
  shows "Quaternion_dot q1 (slerp q1 q2 t) = cos (t * arccos \<bar>Quaternion_dot q1 q2\<bar>)"
proof -
  let ?d = "\<bar>Quaternion_dot q1 q2\<bar>"
  let ?th = "arccos ?d"
  let ?q = "slerp_target q1 q2"
  let ?a = "sin ((1 - t) * ?th) / sin ?th" and ?b = "sin (t * ?th) / sin ?th"
  have d1: "?d < 1" using far by simp
  have s: "sin ?th \<noteq> 0" using d1 by (intro sin_arccos_nonzero) auto
  have cth: "cos ?th = ?d" using d1 by (intro cos_arccos) auto
  have d: "Quaternion_dot q1 ?q = cos ?th" by (simp add: target_dot cth)
  have n: "Quaternion_dot (blend ?a ?b q1 ?q) (blend ?a ?b q1 ?q) = 1"
    unfolding blend_norm [OF u(1) target_unit [OF u(2)]] d using slerp_weights(2) [OF s] .
  then have m: "Quaternion_magnitude (blend ?a ?b q1 ?q) = 1" by (simp add: magnitude_sqrt_dot)
  have p: "Quaternion_dot q1 (blend ?a ?b q1 ?q) = cos (t * ?th)"
    unfolding blend_dot [OF u(1)] d using slerp_weights(1) [OF s] .
  have "slerp q1 q2 t = Quaternion_normalized (blend ?a ?b q1 ?q)" using far by (simp add: slerp_blend)
  then show ?thesis by (simp add: normalized_unit [OF m] p)
qed

lemma slerp_angle_mono:
  assumes u: "Quaternion_magnitude q1 = 1" "Quaternion_magnitude q2 = 1"
    and st: "0 \<le> s" "s \<le> t" "t \<le> 1"
  shows "rotation_angle q1 (slerp q1 q2 s) \<le> rotation_angle q1 (slerp q1 q2 t)"
proof (cases "\<bar>Quaternion_dot q1 q2\<bar> > 0.9995")
  case True
  define c where "c = 1 - \<bar>Quaternion_dot q1 q2\<bar>"
  let ?f = "\<lambda>v. (1 - c * v) / sqrt ((1 - c * v)\<^sup>2 + c * (2 - c) * v\<^sup>2)"
  have c: "0 \<le> c" "c < 1" using True dot_le_one [OF u] by (simp_all add: c_def)
  from st have s1: "s \<le> 1" and t0: "0 \<le> t" by simp_all
  have ds: "Quaternion_dot q1 (slerp q1 q2 s) = ?f s"
    using slerp_dot_near [OF u True st(1) s1] by (simp add: c_def)
  have dt: "Quaternion_dot q1 (slerp q1 q2 t) = ?f t"
    using slerp_dot_near [OF u True t0 st(3)] by (simp add: c_def)
  have le: "?f t \<le> ?f s" using lerp_cos_antitone [OF c st] .
  have bs: "0 < ?f s" "?f s \<le> 1" using lerp_cos_bounds(1,2) [OF c st(1) s1] .
  have bt: "0 < ?f t" "?f t \<le> 1" using lerp_cos_bounds(1,2) [OF c t0 st(3)] .
  have ac: "arccos (?f s) \<le> arccos (?f t)"
    using le bs bt by (intro arccos_le_arccos) auto
  have abs_s: "\<bar>?f s\<bar> = ?f s" using bs(1) by (rule abs_of_pos)
  have abs_t: "\<bar>?f t\<bar> = ?f t" using bt(1) by (rule abs_of_pos)
  show ?thesis unfolding rotation_angle_def ds dt abs_s abs_t using ac by simp
next
  case False
  let ?th = "arccos \<bar>Quaternion_dot q1 q2\<bar>"
  have d: "0 \<le> \<bar>Quaternion_dot q1 q2\<bar>" "\<bar>Quaternion_dot q1 q2\<bar> \<le> 1" using False by simp_all
  have th: "0 \<le> ?th" "?th \<le> pi / 2"
    using arccos_lbound [of "\<bar>Quaternion_dot q1 q2\<bar>"] arccos_le_pi2 [OF d] d by simp_all
  from st have s1: "s \<le> 1" and t0: "0 \<le> t" by simp_all
  have sth: "0 \<le> s * ?th" "s * ?th \<le> t * ?th" "t * ?th \<le> ?th"
    using st th by (simp_all add: mult_right_mono mult_left_le_one_le)
  have tb: "0 \<le> t * ?th" "t * ?th \<le> pi / 2" "s * ?th \<le> pi / 2" using sth th by simp_all
  have cs: "0 \<le> cos (s * ?th)" using sth tb by (intro cos_ge_zero) simp_all
  have ct: "0 \<le> cos (t * ?th)" using sth tb by (intro cos_ge_zero) simp_all
  have as: "arccos (cos (s * ?th)) = s * ?th" using sth tb pi_ge_zero by (intro arccos_cos) simp_all
  have at: "arccos (cos (t * ?th)) = t * ?th" using sth tb pi_ge_zero by (intro arccos_cos) simp_all
  have abs_s: "\<bar>cos (s * ?th)\<bar> = cos (s * ?th)" using cs by (rule abs_of_nonneg)
  have abs_t: "\<bar>cos (t * ?th)\<bar> = cos (t * ?th)" using ct by (rule abs_of_nonneg)
  show ?thesis
    unfolding rotation_angle_def slerp_dot_far [OF u False] abs_s abs_t as at
    using sth by simp
qed

lemma rotate_negated: "Quaternion_rotate (Quaternion_negated q) v = Quaternion_rotate q v"
  by (simp add: Quaternion_rotate_def Quaternion_negated_def Quaternion_mul_def
      Quaternion_conjugate_def Let_def) (intro conjI; algebra)

text \<open>
  Claim C8, as amended. For unit quaternions \<open>q1\<close> and \<open>q2\<close>: \<^verbatim>\<open>slerp(q1, q2, 0)\<close> is
  \<open>q1\<close>; \<^verbatim>\<open>slerp(q1, q2, 1)\<close> is \<open>q2\<close> when the dot product of \<open>q1\<close> and \<open>q2\<close> is not
  negative and \<open>-q2\<close> when it is, which in both cases rotates every vector as \<open>q2\<close> does;
  and the rotation angle from \<open>q1\<close> to \<^verbatim>\<open>slerp(q1, q2, t)\<close> does not decrease as \<open>t\<close>
  grows within \<open>[0, 1]\<close>.
\<close>

theorem slerp_boundary:
  assumes "Quaternion_magnitude q1 = 1" and "Quaternion_magnitude q2 = 1"
  shows "slerp q1 q2 0 = q1 \<and>
         slerp q1 q2 1 = (if Quaternion_dot q1 q2 < 0 then Quaternion_negated q2 else q2) \<and>
         Quaternion_rotate (slerp q1 q2 1) v = Quaternion_rotate q2 v \<and>
         (0 \<le> s \<and> s \<le> t \<and> t \<le> 1 \<longrightarrow>
            rotation_angle q1 (slerp q1 q2 s) \<le> rotation_angle q1 (slerp q1 q2 t))"
  using slerp_0 [OF assms] slerp_1 [OF assms] slerp_angle_mono [OF assms, of s t]
  by (simp add: slerp_target_def rotate_negated)

text \<open>
  The claim as stated has \<^verbatim>\<open>slerp(q1, q2, 1)\<close> equal to \<open>q2\<close> within tolerance. For the
  identity and its negative, both unit quaternions, the result at 1 is the identity: its
  scalar part is 2 away from that of \<open>q2\<close>.
\<close>

theorem slerp_end_negated_counterexample:
  "Quaternion_magnitude Quaternion_identity = 1 \<and>
   Quaternion_magnitude (Quaternion (- 1) 0 0 0) = 1 \<and>
   slerp Quaternion_identity (Quaternion (- 1) 0 0 0) 1 = Quaternion 1 0 0 0 \<and>
   slerp Quaternion_identity (Quaternion (- 1) 0 0 0) 1 \<noteq> Quaternion (- 1) 0 0 0 \<and>
   \<bar>q_w (slerp Quaternion_identity (Quaternion (- 1) 0 0 0) 1) - q_w (Quaternion (- 1) 0 0 0)\<bar> = 2"
  by (simp add: slerp_def Quaternion_identity_def Quaternion_magnitude_def Quaternion_normalized_def)

theorem slerp_boundary_witness:
  "Quaternion_magnitude Quaternion_identity = 1 \<and>
   Quaternion_magnitude example_half_turn = 1 \<and>
   slerp Quaternion_identity example_half_turn 0 = Quaternion_identity \<and>
   slerp Quaternion_identity example_half_turn 1 =
     (if Quaternion_dot Quaternion_identity example_half_turn < 0
      then Quaternion_negated example_half_turn else example_half_turn) \<and>
   Quaternion_rotate (slerp Quaternion_identity example_half_turn 1) (Vec3 0 1 0) =
     Quaternion_rotate example_half_turn (Vec3 0 1 0) \<and>
   (0::real) \<le> 1 / 4 \<and> (1 / 4 :: real) \<le> 1 / 2 \<and> (1 / 2 :: real) \<le> 1 \<and>
   rotation_angle Quaternion_identity (slerp Quaternion_identity example_half_turn (1 / 4))
     \<le> rotation_angle Quaternion_identity (slerp Quaternion_identity example_half_turn (1 / 2))"
proof -
  have a: "Quaternion_magnitude Quaternion_identity = 1"
    by (simp add: Quaternion_identity_def Quaternion_magnitude_def)
  have b: "Quaternion_magnitude example_half_turn = 1"
    by (simp add: example_half_turn_def Quaternion_magnitude_def)
  have c: "(0::real) \<le> 1 / 4" "(1 / 4 :: real) \<le> 1 / 2" "(1 / 2 :: real) \<le> 1" by simp_all
  from slerp_boundary [OF a b, of "Vec3 0 1 0" "1 / 4" "1 / 2"] a b c show ?thesis by blast
qed

end
